theory Spec2Isabelle
  imports Main "HOL-Library.Word"
begin

unbundle bit_operations_syntax

section \<open>Bytes and strings\<close>

text \<open>
  A Go \<^verbatim>\<open>string\<close> is a sequence of bytes and is modelled as a \<^typ>\<open>string\<close>
  (a list of 8-bit characters); a Go \<^verbatim>\<open>[]byte\<close> is a list of 8-bit words.
  The two conversions \<^verbatim>\<open>[]byte(s)\<close> and \<^verbatim>\<open>string(b)\<close> copy the bytes.
\<close>

type_synonym byte = "8 word"

definition bytes_of_string :: "string \<Rightarrow> byte list" where
  "bytes_of_string s = map of_char s"

definition string_of_bytes :: "byte list \<Rightarrow> string" where
  "string_of_bytes b = map (\<lambda>w. char_of (unat w)) b"

definition ord :: "char \<Rightarrow> nat" where
  "ord c = of_char c"

definition chr :: "nat \<Rightarrow> char" where
  "chr n = char_of n"

subsection \<open>Package unicode/utf8\<close>

text \<open>
  Runes are natural numbers. \<open>DecodeRune s\<close> is \<^verbatim>\<open>utf8.DecodeRuneInString(s)\<close>: the
  first rune of \<open>s\<close> and its width in bytes; an invalid or truncated encoding gives
  \<open>(RuneError, 1)\<close>, the empty string \<open>(RuneError, 0)\<close>.
\<close>

definition RuneError :: nat where
  "RuneError = 0xFFFD"

definition cont :: "char \<Rightarrow> bool" where
  "cont c = (0x80 \<le> ord c \<and> ord c \<le> 0xBF)"

definition RuneStart :: "char \<Rightarrow> bool" where
  "RuneStart c = (\<not> cont c)"

definition DecodeRune :: "string \<Rightarrow> nat \<times> nat" where
  "DecodeRune s =
     (case s of
        [] \<Rightarrow> (RuneError, 0)
      | c0 # t \<Rightarrow>
         (let b0 = ord c0 in
          if b0 < 0x80 then (b0, 1)
          else if 0xC2 \<le> b0 \<and> b0 \<le> 0xDF then
            (case t of
               c1 # _ \<Rightarrow>
                 if cont c1 then ((b0 - 0xC0) * 64 + (ord c1 - 0x80), 2) else (RuneError, 1)
             | _ \<Rightarrow> (RuneError, 1))
          else if 0xE0 \<le> b0 \<and> b0 \<le> 0xEF then
            (case t of
               c1 # c2 # _ \<Rightarrow>
                 if (if b0 = 0xE0 then 0xA0 else 0x80) \<le> ord c1
                    \<and> ord c1 \<le> (if b0 = 0xED then 0x9F else 0xBF) \<and> cont c2
                 then ((b0 - 0xE0) * 4096 + (ord c1 - 0x80) * 64 + (ord c2 - 0x80), 3)
                 else (RuneError, 1)
             | _ \<Rightarrow> (RuneError, 1))
          else if 0xF0 \<le> b0 \<and> b0 \<le> 0xF4 then
            (case t of
               c1 # c2 # c3 # _ \<Rightarrow>
                 if (if b0 = 0xF0 then 0x90 else 0x80) \<le> ord c1
                    \<and> ord c1 \<le> (if b0 = 0xF4 then 0x8F else 0xBF) \<and> cont c2 \<and> cont c3
                 then ((b0 - 0xF0) * 262144 + (ord c1 - 0x80) * 4096
                        + (ord c2 - 0x80) * 64 + (ord c3 - 0x80), 4)
                 else (RuneError, 1)
             | _ \<Rightarrow> (RuneError, 1))
          else (RuneError, 1)))"

text \<open>
  \<^verbatim>\<open>utf8.DecodeLastRuneInString\<close>: the last byte if it is ASCII; otherwise the decoder
  looks back over at most three more bytes for a byte that can start a rune, decodes
  from there, and accepts the rune only when it ends exactly at the end of the string.
\<close>

definition DecodeLastRune :: "string \<Rightarrow> nat \<times> nat" where
  "DecodeLastRune s =
     (let n = length s in
      if n = 0 then (RuneError, 0)
      else if ord (s ! (n - 1)) < 0x80 then (ord (s ! (n - 1)), 1)
      else
        (let start =
               (if 2 \<le> n \<and> RuneStart (s ! (n - 2)) then n - 2
                else if 3 \<le> n \<and> RuneStart (s ! (n - 3)) then n - 3
                else if 4 \<le> n \<and> RuneStart (s ! (n - 4)) then n - 4
                else n - 5);
             (r, w) = DecodeRune (drop start s)
         in if start + w \<noteq> n then (RuneError, 1) else (r, w)))"

definition EncodeRune :: "nat \<Rightarrow> string" where
  "EncodeRune r =
     (if r \<le> 0x7F then [chr r]
      else if r \<le> 0x7FF then [chr (0xC0 + r div 64), chr (0x80 + r mod 64)]
      else if 0x10FFFF < r \<or> (0xD800 \<le> r \<and> r \<le> 0xDFFF) then [chr 0xEF, chr 0xBF, chr 0xBD]
      else if r \<le> 0xFFFF then
        [chr (0xE0 + r div 4096), chr (0x80 + (r div 64) mod 64), chr (0x80 + r mod 64)]
      else [chr (0xF0 + r div 262144), chr (0x80 + (r div 4096) mod 64),
            chr (0x80 + (r div 64) mod 64), chr (0x80 + r mod 64)])"

subsection \<open>Package unicode\<close>

definition IsSpace :: "nat \<Rightarrow> bool" where
  "IsSpace r =
     ((0x09 \<le> r \<and> r \<le> 0x0D) \<or> r = 0x20 \<or> r = 0x85 \<or> r = 0xA0 \<or> r = 0x1680
      \<or> (0x2000 \<le> r \<and> r \<le> 0x200A) \<or> r = 0x2028 \<or> r = 0x2029 \<or> r = 0x202F
      \<or> r = 0x205F \<or> r = 0x3000)"

subsection \<open>Package strings\<close>

lemma DecodeRune_width_pos: "s \<noteq> [] \<Longrightarrow> 0 < snd (DecodeRune s)"
  by (cases s) (simp_all add: DecodeRune_def Let_def split: list.split)

lemma DecodeLastRune_width_pos: "s \<noteq> [] \<Longrightarrow> 0 < snd (DecodeLastRune s)"
proof -
  assume ne: "s \<noteq> []"
  define n where "n = length s"
  define start where "start =
               (if 2 \<le> n \<and> RuneStart (s ! (n - 2)) then n - 2
                else if 3 \<le> n \<and> RuneStart (s ! (n - 3)) then n - 3
                else if 4 \<le> n \<and> RuneStart (s ! (n - 4)) then n - 4
                else n - 5)"
  have n: "0 < n" using ne by (simp add: n_def)
  then have "start < n" by (simp add: start_def)
  then have "drop start s \<noteq> []" by (simp add: n_def)
  then have w: "0 < snd (DecodeRune (drop start s))" by (rule DecodeRune_width_pos)
  have "DecodeLastRune s =
      (if ord (s ! (n - 1)) < 0x80 then (ord (s ! (n - 1)), 1)
       else if start + snd (DecodeRune (drop start s)) \<noteq> n then (RuneError, 1)
       else DecodeRune (drop start s))"
    using n unfolding DecodeLastRune_def Let_def n_def[symmetric] start_def[symmetric]
    by (simp add: case_prod_unfold)
  then show ?thesis using w by simp
qed

text \<open>
  \<^verbatim>\<open>strings.TrimSpace\<close> removes the leading and the trailing white-space runes.
\<close>

function TrimLeftSpace :: "string \<Rightarrow> string" where
  "TrimLeftSpace s =
     (if s = [] then []
      else if IsSpace (fst (DecodeRune s)) then TrimLeftSpace (drop (snd (DecodeRune s)) s)
      else s)"
  by pat_completeness auto
termination
  by (relation "measure length") (simp_all add: DecodeRune_width_pos)

function TrimRightSpace :: "string \<Rightarrow> string" where
  "TrimRightSpace s =
     (if s = [] then []
      else if IsSpace (fst (DecodeLastRune s))
        then TrimRightSpace (take (length s - snd (DecodeLastRune s)) s)
      else s)"
  by pat_completeness auto
termination
  by (relation "measure length") (simp_all add: DecodeLastRune_width_pos)

definition TrimSpace :: "string \<Rightarrow> string" where
  "TrimSpace s = TrimRightSpace (TrimLeftSpace s)"

definition HasPrefix :: "string \<Rightarrow> string \<Rightarrow> bool" where
  "HasPrefix s p = (length p \<le> length s \<and> take (length p) s = p)"

text \<open>
  \<^verbatim>\<open>strings.ReplaceAll(s, old, new)\<close> replaces the non-overlapping occurrences of
  \<open>old\<close>, found from left to right. For an empty \<open>old\<close> the replacement is inserted
  before every rune and at the end.
\<close>

function insertAtRunes :: "string \<Rightarrow> string \<Rightarrow> string" where
  "insertAtRunes s new =
     (if s = [] then []
      else take (snd (DecodeRune s)) s @ new @ insertAtRunes (drop (snd (DecodeRune s)) s) new)"
  by pat_completeness auto
termination
  by (relation "measure (\<lambda>(s, new). length s)") (simp_all add: DecodeRune_width_pos)

function replaceFrom :: "string \<Rightarrow> string \<Rightarrow> string \<Rightarrow> string" where
  "replaceFrom s old new =
     (if s = [] \<or> old = [] then []
      else if HasPrefix s old then new @ replaceFrom (drop (length old) s) old new
      else hd s # replaceFrom (tl s) old new)"
  by pat_completeness auto
termination
  by (relation "measure (\<lambda>(s, old, new). length s)") auto

definition ReplaceAll :: "string \<Rightarrow> string \<Rightarrow> string \<Rightarrow> string" where
  "ReplaceAll s old new =
     (if old = [] then new @ insertAtRunes s new else replaceFrom s old new)"

text \<open>\<^verbatim>\<open>strings.Join(elems, sep)\<close>.\<close>

fun Join :: "string list \<Rightarrow> string \<Rightarrow> string" where
  "Join [] sep = []"
| "Join [e] sep = e"
| "Join (e # es) sep = e @ sep @ Join es sep"

text \<open>
  \<^verbatim>\<open>strings.Split(s, sep)\<close> for a one-byte separator: the pieces of \<open>s\<close> between the
  occurrences of the separator, in order; the result is never empty.
\<close>

fun Split :: "string \<Rightarrow> char \<Rightarrow> string list" where
  "Split [] sep = [[]]"
| "Split (c # cs) sep =
     (if c = sep then [] # Split cs sep
      else (case Split cs sep of
              [] \<Rightarrow> [[c]]
            | p # ps \<Rightarrow> (c # p) # ps))"

subsection \<open>Package io: ReadFull on a strings.Reader\<close>

datatype io_error = EOF | ErrUnexpectedEOF

text \<open>
  \<^verbatim>\<open>io.ReadFull(strings.NewReader(s), buf)\<close> with \<open>len(buf) = n\<close>: the reader copies
  the bytes of \<open>s\<close> into the buffer; the call returns the number of bytes read, the
  buffer, and an error exactly when fewer than \<open>n\<close> bytes were available.
\<close>

definition ReadFull :: "string \<Rightarrow> nat \<Rightarrow> nat \<times> byte list \<times> io_error option" where
  "ReadFull s n =
     (let k = min (length s) n;
          buf = bytes_of_string (take k s) @ replicate (n - k) 0
      in (k, buf,
          if n \<le> k then None
          else if 0 < k then Some ErrUnexpectedEOF
          else Some EOF))"

subsection \<open>Package encoding/base64: StdEncoding.EncodeToString\<close>

definition encodeStd :: string where
  "encodeStd = ''ABCDEFGHIJKLMNOPQRSTUVWXYZabcdefghijklmnopqrstuvwxyz0123456789+/''"

definition enc6 :: "nat \<Rightarrow> char" where
  "enc6 v = encodeStd ! (v mod 64)"

fun EncodeToString :: "byte list \<Rightarrow> string" where
  "EncodeToString [] = []"
| "EncodeToString [a] =
     (let val = unat a * 65536
      in [enc6 (val div 262144), enc6 (val div 4096), CHR ''='', CHR ''=''])"
| "EncodeToString [a, b] =
     (let val = unat a * 65536 + unat b * 256
      in [enc6 (val div 262144), enc6 (val div 4096), enc6 (val div 64), CHR ''=''])"
| "EncodeToString (a # b # c # rest) =
     (let val = unat a * 65536 + unat b * 256 + unat c
      in [enc6 (val div 262144), enc6 (val div 4096), enc6 (val div 64), enc6 val]
         @ EncodeToString rest)"

subsection \<open>Package strconv: ParseInt in base 10\<close>

datatype num_error = ErrSyntax | ErrRange

definition isDigit :: "char \<Rightarrow> bool" where
  "isDigit c = (0x30 \<le> ord c \<and> ord c \<le> 0x39)"

definition digitVal :: "char \<Rightarrow> nat" where
  "digitVal c = ord c - 0x30"

text \<open>
  \<^verbatim>\<open>strconv.ParseUint(s, 10, bitSize)\<close> on a non-empty string: the digits are read
  from the left; a byte that is no digit is a syntax error, a value above
  \<open>2 ^ bitSize - 1\<close> a range error, whichever comes first.
\<close>

fun parseUintFrom :: "nat \<Rightarrow> nat \<Rightarrow> string \<Rightarrow> num_error + nat" where
  "parseUintFrom maxVal n [] = Inr n"
| "parseUintFrom maxVal n (c # cs) =
     (if \<not> isDigit c then Inl ErrSyntax
      else if 2 ^ 64 div 10 + 1 \<le> n then Inl ErrRange
      else if maxVal < n * 10 + digitVal c then Inl ErrRange
      else parseUintFrom maxVal (n * 10 + digitVal c) cs)"

definition ParseInt :: "string \<Rightarrow> nat \<Rightarrow> num_error + int" where
  "ParseInt s bitSize =
     (if s = [] then Inl ErrSyntax
      else
        (let neg = (hd s = CHR ''-'');
             digits = (if hd s = CHR ''+'' \<or> hd s = CHR ''-'' then tl s else s)
         in if digits = [] then Inl ErrSyntax
            else (case parseUintFrom (2 ^ bitSize - 1) 0 digits of
                    Inl ErrSyntax \<Rightarrow> Inl ErrSyntax
                  | Inl ErrRange \<Rightarrow> Inl ErrRange
                  | Inr un \<Rightarrow>
                      if \<not> neg \<and> 2 ^ (bitSize - 1) \<le> un then Inl ErrRange
                      else if neg \<and> 2 ^ (bitSize - 1) < un then Inl ErrRange
                      else Inr (if neg then - int un else int un))))"

section \<open>Package encoding/json\<close>

subsection \<open>The scanner: which texts are valid JSON\<close>

text \<open>
  The scanner reads the text byte by byte. The model splits it into the tokens of
  JSON first (number and string literals are kept as they are written) and then reads
  the token sequence with the scanner's stack of open arrays and objects, building the
  value on the way. A text that the scanner rejects gives \<open>None\<close>.
\<close>

datatype token =
    TLBrace | TRBrace | TLBrack | TRBrack | TColon | TComma
  | TString string | TNumber string | TTrue | TFalse | TNull

datatype numstate = Neg | N0 | N1 | Dot | Dot0 | E | ESign | E0

definition isExp :: "char \<Rightarrow> bool" where
  "isExp c = (c = CHR ''e'' \<or> c = CHR ''E'')"

fun numStep :: "numstate \<Rightarrow> char \<Rightarrow> numstate option" where
  "numStep Neg c =
     (if c = CHR ''0'' then Some N0 else if isDigit c then Some N1 else None)"
| "numStep N0 c =
     (if c = CHR ''.'' then Some Dot else if isExp c then Some E else None)"
| "numStep N1 c =
     (if isDigit c then Some N1 else if c = CHR ''.'' then Some Dot
      else if isExp c then Some E else None)"
| "numStep Dot c = (if isDigit c then Some Dot0 else None)"
| "numStep Dot0 c = (if isDigit c then Some Dot0 else if isExp c then Some E else None)"
| "numStep E c =
     (if c = CHR ''+'' \<or> c = CHR ''-'' then Some ESign
      else if isDigit c then Some E0 else None)"
| "numStep ESign c = (if isDigit c then Some E0 else None)"
| "numStep E0 c = (if isDigit c then Some E0 else None)"

fun numFinal :: "numstate \<Rightarrow> bool" where
  "numFinal N0 = True"
| "numFinal N1 = True"
| "numFinal Dot0 = True"
| "numFinal E0 = True"
| "numFinal _ = False"

datatype mode =
    MValue
  | MString string
  | MEsc string
  | MHex nat string
  | MNumber numstate string
  | MLit string token

definition isJSONSpace :: "char \<Rightarrow> bool" where
  "isJSONSpace c = (c = CHR '' '' \<or> ord c = 0x09 \<or> ord c = 0x0D \<or> ord c = 0x0A)"

definition isHex :: "char \<Rightarrow> bool" where
  "isHex c = (isDigit c \<or> (0x61 \<le> ord c \<and> ord c \<le> 0x66) \<or> (0x41 \<le> ord c \<and> ord c \<le> 0x46))"

definition lexStart :: "char \<Rightarrow> (token list \<times> mode) option" where
  "lexStart c =
     (if isJSONSpace c then Some ([], MValue)
      else if c = CHR ''{'' then Some ([TLBrace], MValue)
      else if c = CHR ''}'' then Some ([TRBrace], MValue)
      else if c = CHR ''['' then Some ([TLBrack], MValue)
      else if c = CHR '']'' then Some ([TRBrack], MValue)
      else if c = CHR '':'' then Some ([TColon], MValue)
      else if c = CHR '','' then Some ([TComma], MValue)
      else if ord c = 0x22 then Some ([], MString [])
      else if c = CHR ''-'' then Some ([], MNumber Neg [c])
      else if c = CHR ''0'' then Some ([], MNumber N0 [c])
      else if isDigit c then Some ([], MNumber N1 [c])
      else if c = CHR ''t'' then Some ([], MLit ''rue'' TTrue)
      else if c = CHR ''f'' then Some ([], MLit ''alse'' TFalse)
      else if c = CHR ''n'' then Some ([], MLit ''ull'' TNull)
      else None)"

fun lexStep :: "mode \<Rightarrow> char \<Rightarrow> (token list \<times> mode) option" where
  "lexStep MValue c = lexStart c"
| "lexStep (MString acc) c =
     (if ord c = 0x22 then Some ([TString acc], MValue)
      else if ord c = 0x5C then Some ([], MEsc (acc @ [c]))
      else if ord c < 0x20 then None
      else Some ([], MString (acc @ [c])))"
| "lexStep (MEsc acc) c =
     (if c = CHR ''b'' \<or> c = CHR ''f'' \<or> c = CHR ''n'' \<or> c = CHR ''r'' \<or> c = CHR ''t''
         \<or> ord c = 0x5C \<or> c = CHR ''/'' \<or> ord c = 0x22
      then Some ([], MString (acc @ [c]))
      else if c = CHR ''u'' then Some ([], MHex 4 (acc @ [c]))
      else None)"
| "lexStep (MHex k acc) c =
     (if isHex c then Some ([], if k \<le> 1 then MString (acc @ [c]) else MHex (k - 1) (acc @ [c]))
      else None)"
| "lexStep (MNumber st acc) c =
     (case numStep st c of
        Some st' \<Rightarrow> Some ([], MNumber st' (acc @ [c]))
      | None \<Rightarrow>
          if numFinal st then
            (case lexStart c of
               Some (ts, m) \<Rightarrow> Some (TNumber acc # ts, m)
             | None \<Rightarrow> None)
          else None)"
| "lexStep (MLit rest tok) c =
     (case rest of
        [] \<Rightarrow> None
      | r # rs \<Rightarrow>
          if c \<noteq> r then None
          else if rs = [] then Some ([tok], MValue)
          else Some ([], MLit rs tok))"

fun lex :: "mode \<Rightarrow> string \<Rightarrow> token list option" where
  "lex m [] =
     (case m of
        MValue \<Rightarrow> Some []
      | MNumber st acc \<Rightarrow> if numFinal st then Some [TNumber acc] else None
      | _ \<Rightarrow> None)"
| "lex m (c # cs) =
     (case lexStep m c of
        None \<Rightarrow> None
      | Some (ts, m') \<Rightarrow>
          (case lex m' cs of
             None \<Rightarrow> None
           | Some rest \<Rightarrow> Some (ts @ rest)))"

text \<open>
  \<^verbatim>\<open>isValidNumber\<close>: the whole string is one JSON number literal.
\<close>

definition isValidNumber :: "string \<Rightarrow> bool" where
  "isValidNumber s = (lex MValue s = Some [TNumber s])"

subsection \<open>String literals\<close>

text \<open>
  \<^verbatim>\<open>unquoteBytes\<close>: the bytes a string literal stands for. Escapes are replaced,
  \<^verbatim>\<open>\uXXXX\<close> by the UTF-8 encoding of the code point (two escapes that form a
  surrogate pair by the code point of the pair, a lone surrogate by U+FFFD), and a
  byte sequence that is not valid UTF-8 by U+FFFD.
\<close>

definition hexVal :: "char \<Rightarrow> nat" where
  "hexVal c =
     (if isDigit c then ord c - 0x30
      else if 0x61 \<le> ord c \<and> ord c \<le> 0x66 then ord c - 0x61 + 10
      else ord c - 0x41 + 10)"

definition getu4 :: "string \<Rightarrow> nat option" where
  "getu4 s =
     (if 6 \<le> length s \<and> ord (s ! 0) = 0x5C \<and> s ! 1 = CHR ''u''
         \<and> isHex (s ! 2) \<and> isHex (s ! 3) \<and> isHex (s ! 4) \<and> isHex (s ! 5)
      then Some (hexVal (s ! 2) * 4096 + hexVal (s ! 3) * 256 + hexVal (s ! 4) * 16 + hexVal (s ! 5))
      else None)"

definition IsSurrogate :: "nat \<Rightarrow> bool" where
  "IsSurrogate r = (0xD800 \<le> r \<and> r < 0xE000)"

definition utf16DecodeRune :: "nat \<Rightarrow> nat option \<Rightarrow> nat" where
  "utf16DecodeRune r1 r2 =
     (case r2 of
        None \<Rightarrow> RuneError
      | Some r2' \<Rightarrow>
          if 0xD800 \<le> r1 \<and> r1 < 0xDC00 \<and> 0xDC00 \<le> r2' \<and> r2' < 0xE000
          then (r1 - 0xD800) * 1024 + (r2' - 0xDC00) + 0x10000
          else RuneError)"

text \<open>
  \<open>unescape s\<close>, for \<open>s\<close> starting at a backslash: the bytes written and the number
  of bytes of \<open>s\<close> read. (The scanner has accepted the literal, so the escape is
  well formed; the last case is never reached.)
\<close>

definition unescape :: "string \<Rightarrow> string \<times> nat" where
  "unescape s =
     (if length s < 2 then ([], length s)
      else
        (let c = s ! 1 in
         if ord c = 0x22 \<or> ord c = 0x5C \<or> c = CHR ''/'' \<or> ord c = 0x27 then ([c], 2)
         else if c = CHR ''b'' then ([chr 0x08], 2)
         else if c = CHR ''f'' then ([chr 0x0C], 2)
         else if c = CHR ''n'' then ([chr 0x0A], 2)
         else if c = CHR ''r'' then ([chr 0x0D], 2)
         else if c = CHR ''t'' then ([chr 0x09], 2)
         else if c = CHR ''u'' then
           (case getu4 s of
              None \<Rightarrow> ([], length s)
            | Some rr \<Rightarrow>
                if IsSurrogate rr then
                  (let dec = utf16DecodeRune rr (getu4 (drop 6 s)) in
                   if dec \<noteq> RuneError then (EncodeRune dec, 12)
                   else (EncodeRune RuneError, 6))
                else (EncodeRune rr, 6))
         else ([], length s)))"

fun unquoteFrom :: "nat \<Rightarrow> string \<Rightarrow> string" where
  "unquoteFrom k [] = []"
| "unquoteFrom (Suc k) (c # cs) = unquoteFrom k cs"
| "unquoteFrom 0 (c # cs) =
     (if ord c = 0x5C then
        (case unescape (c # cs) of (out, n) \<Rightarrow> out @ unquoteFrom (n - 1) cs)
      else if ord c < 0x80 then c # unquoteFrom 0 cs
      else
        (case DecodeRune (c # cs) of (r, w) \<Rightarrow> EncodeRune r @ unquoteFrom (w - 1) cs))"

definition unquote :: "string \<Rightarrow> string" where
  "unquote s = unquoteFrom 0 s"

subsection \<open>Values\<close>

datatype json =
    JNull
  | JBool bool
  | JNumber string
  | JString string
  | JArray "json list"
  | JObject "(string \<times> json) list"

text \<open>
  A number keeps its literal text, a string is unquoted, an object keeps its members in
  the order of the text, duplicates included.
\<close>

datatype frame =
    ArrayFrame "json list"
  | ObjectFrame "(string \<times> json) list" "string option"

datatype expect =
    BeginValue | BeginValueOrEmpty | BeginStringOrEmpty | BeginString
  | ObjectColon | EndValue | EndTop

definition maxNestingDepth :: nat where
  "maxNestingDepth = 10000"

type_synonym pstate = "expect \<times> frame list \<times> json option"

fun endValue :: "json \<Rightarrow> frame list \<Rightarrow> pstate option" where
  "endValue v [] = Some (EndTop, [], Some v)"
| "endValue v (ArrayFrame vs # st) = Some (EndValue, ArrayFrame (vs @ [v]) # st, None)"
| "endValue v (ObjectFrame ms (Some k) # st) =
     Some (EndValue, ObjectFrame (ms @ [(k, v)]) None # st, None)"
| "endValue v (ObjectFrame ms None # st) = None"

fun beginValue :: "token \<Rightarrow> frame list \<Rightarrow> pstate option" where
  "beginValue TLBrace st =
     (if length st < maxNestingDepth
      then Some (BeginStringOrEmpty, ObjectFrame [] None # st, None) else None)"
| "beginValue TLBrack st =
     (if length st < maxNestingDepth
      then Some (BeginValueOrEmpty, ArrayFrame [] # st, None) else None)"
| "beginValue (TString s) st = endValue (JString (unquote s)) st"
| "beginValue (TNumber n) st = endValue (JNumber n) st"
| "beginValue TTrue st = endValue (JBool True) st"
| "beginValue TFalse st = endValue (JBool False) st"
| "beginValue TNull st = endValue JNull st"
| "beginValue _ st = None"

fun beginKey :: "token \<Rightarrow> frame list \<Rightarrow> pstate option" where
  "beginKey (TString k) (ObjectFrame ms None # st) =
     Some (ObjectColon, ObjectFrame ms (Some (unquote k)) # st, None)"
| "beginKey _ _ = None"

fun parseStep :: "pstate \<Rightarrow> token \<Rightarrow> pstate option" where
  "parseStep (BeginValue, st, r) tok = beginValue tok st"
| "parseStep (BeginValueOrEmpty, st, r) tok =
     (case (tok, st) of
        (TRBrack, ArrayFrame vs # st') \<Rightarrow> endValue (JArray vs) st'
      | _ \<Rightarrow> beginValue tok st)"
| "parseStep (BeginStringOrEmpty, st, r) tok =
     (case (tok, st) of
        (TRBrace, ObjectFrame ms None # st') \<Rightarrow> endValue (JObject ms) st'
      | _ \<Rightarrow> beginKey tok st)"
| "parseStep (BeginString, st, r) tok = beginKey tok st"
| "parseStep (ObjectColon, st, r) tok =
     (case tok of TColon \<Rightarrow> Some (BeginValue, st, None) | _ \<Rightarrow> None)"
| "parseStep (EndValue, st, r) tok =
     (case (tok, st) of
        (TComma, ArrayFrame vs # st') \<Rightarrow> Some (BeginValue, st, None)
      | (TRBrack, ArrayFrame vs # st') \<Rightarrow> endValue (JArray vs) st'
      | (TComma, ObjectFrame ms None # st') \<Rightarrow> Some (BeginString, st, None)
      | (TRBrace, ObjectFrame ms None # st') \<Rightarrow> endValue (JObject ms) st'
      | _ \<Rightarrow> None)"
| "parseStep (EndTop, st, r) tok = None"

fun parseTokens :: "pstate \<Rightarrow> token list \<Rightarrow> json option" where
  "parseTokens (e, st, r) [] = (if e = EndTop then r else None)"
| "parseTokens ps (tok # toks) =
     (case parseStep ps tok of
        None \<Rightarrow> None
      | Some ps' \<Rightarrow> parseTokens ps' toks)"

definition parseJSON :: "string \<Rightarrow> json option" where
  "parseJSON s =
     (case lex MValue s of
        None \<Rightarrow> None
      | Some toks \<Rightarrow> parseTokens (BeginValue, [], None) toks)"

subsection \<open>Unmarshal into the structs of parseResponse\<close>

text \<open>
  The target of \<^verbatim>\<open>json.Unmarshal\<close> in \<^verbatim>\<open>parseResponse\<close> is an anonymous struct; its
  fields are named here by their JSON tags. A slice is its elements together with the
  elements of its backing array beyond its length (\<open>spare\<close>): when a key occurs twice in
  an object, the decoder writes into the slice it finds and reuses those elements.
\<close>

record 'a slice =
  elems :: "'a list"
  spare :: "'a list"

record rawItem =
  name :: string
  amount :: string
  isTaxed :: bool
  quantity :: int

record raw =
  vendor :: string
  date :: string
  total :: string
  tax :: string
  categories :: "string slice"
  items :: "rawItem slice"

definition nilSlice :: "'a slice" where
  "nilSlice = \<lparr>elems = [], spare = []\<rparr>"

definition zeroRawItem :: rawItem where
  "zeroRawItem = \<lparr>name = [], amount = [], isTaxed = False, quantity = 0\<rparr>"

definition zeroRaw :: raw where
  "zeroRaw = \<lparr>vendor = [], date = [], total = [], tax = [],
               categories = nilSlice, items = nilSlice\<rparr>"

datatype json_error =
    SyntaxError
  | UnmarshalTypeError string
  | InvalidNumberLiteral string

text \<open>
  A decoder takes the current value of its target, the JSON value and the error saved
  so far. It returns the new value of the target and the saved error, or fails at
  once. A value of the wrong kind leaves the target as it is, saves an
  \<open>UnmarshalTypeError\<close> (only the first one is kept) and decoding goes on;
  \<^verbatim>\<open>null\<close> leaves a target that is no slice as it is.
\<close>

type_synonym saved = "json_error option"
type_synonym 'a decoder = "'a \<Rightarrow> json \<Rightarrow> saved \<Rightarrow> json_error + ('a \<times> saved)"

definition saveError :: "json_error \<Rightarrow> saved \<Rightarrow> saved" where
  "saveError e sv = (case sv of None \<Rightarrow> Some e | Some e' \<Rightarrow> Some e')"

fun kindOf :: "json \<Rightarrow> string" where
  "kindOf JNull = ''null''"
| "kindOf (JBool b) = ''bool''"
| "kindOf (JNumber n) = ''number''"
| "kindOf (JString s) = ''string''"
| "kindOf (JArray vs) = ''array''"
| "kindOf (JObject ms) = ''object''"

definition typeError :: "'a \<Rightarrow> json \<Rightarrow> saved \<Rightarrow> json_error + ('a \<times> saved)" where
  "typeError cur v sv = Inr (cur, saveError (UnmarshalTypeError (kindOf v)) sv)"

fun decodeString :: "string decoder" where
  "decodeString cur (JString s) sv = Inr (s, sv)"
| "decodeString cur JNull sv = Inr (cur, sv)"
| "decodeString cur v sv = typeError cur v sv"

fun decodeNumber :: "string decoder" where
  "decodeNumber cur (JNumber n) sv = Inr (n, sv)"
| "decodeNumber cur (JString s) sv =
     (if isValidNumber s then Inr (s, sv) else Inl (InvalidNumberLiteral s))"
| "decodeNumber cur JNull sv = Inr (cur, sv)"
| "decodeNumber cur v sv = typeError cur v sv"

fun decodeBool :: "bool decoder" where
  "decodeBool cur (JBool b) sv = Inr (b, sv)"
| "decodeBool cur JNull sv = Inr (cur, sv)"
| "decodeBool cur v sv = typeError cur v sv"

fun decodeInt :: "int decoder" where
  "decodeInt cur (JNumber n) sv =
     (case ParseInt n 64 of
        Inr i \<Rightarrow> Inr (i, sv)
      | Inl e \<Rightarrow> Inr (cur, saveError (UnmarshalTypeError (''number '' @ n)) sv))"
| "decodeInt cur JNull sv = Inr (cur, sv)"
| "decodeInt cur v sv = typeError cur v sv"

fun decodeElems :: "'a decoder \<Rightarrow> 'a \<Rightarrow> 'a list \<Rightarrow> json list \<Rightarrow> saved \<Rightarrow> json_error + ('a list \<times> saved)" where
  "decodeElems dec zero backing [] sv = Inr ([], sv)"
| "decodeElems dec zero backing (v # vs) sv =
     (case dec (case backing of [] \<Rightarrow> zero | b # bs \<Rightarrow> b) v sv of
        Inl e \<Rightarrow> Inl e
      | Inr (x, sv') \<Rightarrow>
          (case decodeElems dec zero (tl backing) vs sv' of
             Inl e \<Rightarrow> Inl e
           | Inr (xs, sv'') \<Rightarrow> Inr (x # xs, sv'')))"

definition decodeSlice :: "'a decoder \<Rightarrow> 'a \<Rightarrow> 'a slice decoder" where
  "decodeSlice dec zero cur v sv =
     (case v of
        JArray vs \<Rightarrow>
          (case decodeElems dec zero (elems cur @ spare cur) vs sv of
             Inl e \<Rightarrow> Inl e
           | Inr (xs, sv') \<Rightarrow>
               Inr (if vs = [] then nilSlice
                    else \<lparr>elems = xs, spare = drop (length vs) (elems cur @ spare cur)\<rparr>, sv'))
      | JNull \<Rightarrow> Inr (nilSlice, sv)
      | _ \<Rightarrow> typeError cur v sv)"

text \<open>
  A key selects the field whose tag it equals or, failing that, the field whose tag it
  equals under Unicode simple case folding. \<open>foldName\<close> puts ASCII letters in upper case
  and folds U+017F to S and U+212A to K, the two runes outside ASCII that fold to an
  ASCII letter; the bytes of any other rune are kept, which decides the comparison with
  the ASCII tags of the fields in the same way.
\<close>

definition toUpper :: "char \<Rightarrow> char" where
  "toUpper c = (if 0x61 \<le> ord c \<and> ord c \<le> 0x7A then chr (ord c - 0x20) else c)"

fun foldFrom :: "nat \<Rightarrow> string \<Rightarrow> string" where
  "foldFrom k [] = []"
| "foldFrom (Suc k) (c # cs) = c # foldFrom k cs"
| "foldFrom 0 (c # cs) =
     (if ord c < 0x80 then toUpper c # foldFrom 0 cs
      else
        (case DecodeRune (c # cs) of
           (r, w) \<Rightarrow>
             if r = 0x17F then CHR ''S'' # drop (w - 1) (foldFrom (w - 1) cs)
             else if r = 0x212A then CHR ''K'' # drop (w - 1) (foldFrom (w - 1) cs)
             else c # foldFrom (w - 1) cs))"

definition foldName :: "string \<Rightarrow> string" where
  "foldName s = foldFrom 0 s"

definition findField :: "string list \<Rightarrow> string \<Rightarrow> string option" where
  "findField names key =
     (if key \<in> set names then Some key
      else find (\<lambda>f. foldName f = foldName key) names)"

definition itemFields :: "string list" where
  "itemFields = [''name'', ''amount'', ''isTaxed'', ''quantity'']"

definition rawFields :: "string list" where
  "rawFields = [''vendor'', ''date'', ''total'', ''tax'', ''categories'', ''items'']"

definition decodeItemField :: "rawItem \<Rightarrow> string \<Rightarrow> json \<Rightarrow> saved \<Rightarrow> json_error + (rawItem \<times> saved)" where
  "decodeItemField cur key v sv =
     (case findField itemFields key of
        None \<Rightarrow> Inr (cur, sv)
      | Some f \<Rightarrow>
          if f = ''name'' then
            map_sum id (\<lambda>(x, sv'). (cur\<lparr>name := x\<rparr>, sv')) (decodeString (name cur) v sv)
          else if f = ''amount'' then
            map_sum id (\<lambda>(x, sv'). (cur\<lparr>amount := x\<rparr>, sv')) (decodeNumber (amount cur) v sv)
          else if f = ''isTaxed'' then
            map_sum id (\<lambda>(x, sv'). (cur\<lparr>isTaxed := x\<rparr>, sv')) (decodeBool (isTaxed cur) v sv)
          else
            map_sum id (\<lambda>(x, sv'). (cur\<lparr>quantity := x\<rparr>, sv')) (decodeInt (quantity cur) v sv))"

fun decodeMembers :: "('a \<Rightarrow> string \<Rightarrow> json \<Rightarrow> saved \<Rightarrow> json_error + ('a \<times> saved)) \<Rightarrow> 'a \<Rightarrow> (string \<times> json) list \<Rightarrow> saved \<Rightarrow> json_error + ('a \<times> saved)" where
  "decodeMembers field cur [] sv = Inr (cur, sv)"
| "decodeMembers field cur ((k, v) # ms) sv =
     (case field cur k v sv of
        Inl e \<Rightarrow> Inl e
      | Inr (cur', sv') \<Rightarrow> decodeMembers field cur' ms sv')"

definition decodeStruct :: "('a \<Rightarrow> string \<Rightarrow> json \<Rightarrow> saved \<Rightarrow> json_error + ('a \<times> saved)) \<Rightarrow> 'a decoder" where
  "decodeStruct field cur v sv =
     (case v of
        JObject ms \<Rightarrow> decodeMembers field cur ms sv
      | JNull \<Rightarrow> Inr (cur, sv)
      | _ \<Rightarrow> typeError cur v sv)"

definition decodeRawField :: "raw \<Rightarrow> string \<Rightarrow> json \<Rightarrow> saved \<Rightarrow> json_error + (raw \<times> saved)" where
  "decodeRawField cur key v sv =
     (case findField rawFields key of
        None \<Rightarrow> Inr (cur, sv)
      | Some f \<Rightarrow>
          if f = ''vendor'' then
            map_sum id (\<lambda>(x, sv'). (cur\<lparr>vendor := x\<rparr>, sv')) (decodeString (vendor cur) v sv)
          else if f = ''date'' then
            map_sum id (\<lambda>(x, sv'). (cur\<lparr>date := x\<rparr>, sv')) (decodeString (date cur) v sv)
          else if f = ''total'' then
            map_sum id (\<lambda>(x, sv'). (cur\<lparr>total := x\<rparr>, sv')) (decodeNumber (total cur) v sv)
          else if f = ''tax'' then
            map_sum id (\<lambda>(x, sv'). (cur\<lparr>tax := x\<rparr>, sv')) (decodeNumber (tax cur) v sv)
          else if f = ''categories'' then
            map_sum id (\<lambda>(x, sv'). (cur\<lparr>categories := x\<rparr>, sv'))
              (decodeSlice decodeString [] (categories cur) v sv)
          else
            map_sum id (\<lambda>(x, sv'). (cur\<lparr>items := x\<rparr>, sv'))
              (decodeSlice (decodeStruct decodeItemField) zeroRawItem (items cur) v sv))"

text \<open>
  \<^verbatim>\<open>json.Unmarshal([]byte(text), &raw)\<close> with \<open>raw\<close> at its zero value: a syntax error
  when the text is no valid JSON; otherwise the error that stopped the decoding or, when
  it ran to the end, the first error saved, if any.
\<close>

definition Unmarshal :: "string \<Rightarrow> json_error + raw" where
  "Unmarshal text =
     (case parseJSON text of
        None \<Rightarrow> Inl SyntaxError
      | Some v \<Rightarrow>
          (case decodeStruct decodeRawField zeroRaw v None of
             Inl e \<Rightarrow> Inl e
           | Inr (r, Some e) \<Rightarrow> Inl e
           | Inr (r, None) \<Rightarrow> Inr r))"

section \<open>Package github.com/shopspring/decimal\<close>

text \<open>
  A \<open>Decimal\<close> is \<open>coefficient * 10 ^ exponent\<close> with an integer coefficient of any size
  and a 32-bit exponent; the zero value has coefficient and exponent 0.
\<close>

record Decimal =
  coefficient :: int
  exponent :: int

definition zeroDecimal :: Decimal where
  "zeroDecimal = \<lparr>coefficient = 0, exponent = 0\<rparr>"

datatype dec_error = ExponentNotNumeric | FractionalPartTooLong | TooManyDots | CantConvert

fun IndexAnyExp :: "string \<Rightarrow> nat option" where
  "IndexAnyExp [] = None"
| "IndexAnyExp (c # cs) =
     (if isExp c then Some 0 else map_option Suc (IndexAnyExp cs))"

fun IndexDot :: "string \<Rightarrow> nat option" where
  "IndexDot [] = None"
| "IndexDot (c # cs) =
     (if c = CHR ''.'' then Some 0 else map_option Suc (IndexDot cs))"

text \<open>
  The coefficient is read by \<^verbatim>\<open>strconv.ParseInt\<close> when it has at most 18 bytes and by
  \<^verbatim>\<open>big.Int.SetString\<close> otherwise; both accept an optional sign followed by one or more
  decimal digits, and 18 bytes cannot leave the 64-bit range.
\<close>

definition bigIntSetString :: "string \<Rightarrow> int option" where
  "bigIntSetString s =
     (let neg = (s \<noteq> [] \<and> hd s = CHR ''-'');
          digits = (if s \<noteq> [] \<and> (hd s = CHR ''+'' \<or> hd s = CHR ''-'') then tl s else s)
      in if digits = [] \<or> \<not> list_all isDigit digits then None
         else Some ((if neg then -1 else 1) * int (foldl (\<lambda>n c. n * 10 + digitVal c) 0 digits)))"

definition parseCoefficient :: "string \<Rightarrow> int option" where
  "parseCoefficient intString =
     (if length intString \<le> 18 then
        (case ParseInt intString 64 of Inl e \<Rightarrow> None | Inr n \<Rightarrow> Some n)
      else bigIntSetString intString)"

definition NewFromString :: "string \<Rightarrow> dec_error + Decimal" where
  "NewFromString v =
     (case (case IndexAnyExp v of
              None \<Rightarrow> Inr (v, 0)
            | Some eIndex \<Rightarrow>
                (case ParseInt (drop (eIndex + 1) v) 32 of
                   Inl ErrRange \<Rightarrow> Inl FractionalPartTooLong
                 | Inl ErrSyntax \<Rightarrow> Inl ExponentNotNumeric
                 | Inr expInt \<Rightarrow> Inr (take eIndex v, expInt))) of
        Inl e \<Rightarrow> Inl e
      | Inr (val, exp0) \<Rightarrow>
          if 1 < length (filter (\<lambda>c. c = CHR ''.'') val) then Inl TooManyDots
          else
            (let (intString, exp1) =
                   (case IndexDot val of
                      None \<Rightarrow> (val, exp0)
                    | Some pIndex \<Rightarrow>
                        (take pIndex val @ drop (pIndex + 1) val,
                         exp0 - int (length (drop (pIndex + 1) val))))
             in case parseCoefficient intString of
                  None \<Rightarrow> Inl CantConvert
                | Some d \<Rightarrow>
                    if exp1 < - (2 ^ 31) \<or> 2 ^ 31 - 1 < exp1 then Inl FractionalPartTooLong
                    else Inr \<lparr>coefficient = d, exponent = exp1\<rparr>))"

section \<open>Package time: Parse\<close>

text \<open>
  A \<open>Time\<close> is given by its calendar date and clock time in its location; the location
  is UTC or a zone with a fixed offset in seconds east of UTC. The zero value is
  January 1, year 1, 00:00:00 UTC.
\<close>

datatype Location = UTC | FixedZone int

record Time =
  Year :: int
  Month :: nat
  Day :: nat
  Hour :: nat
  Minute :: nat
  Second :: nat
  Nanosecond :: nat
  Loc :: Location

definition zeroTime :: Time where
  "zeroTime = \<lparr>Year = 1, Month = 1, Day = 1, Hour = 0, Minute = 0, Second = 0,
                Nanosecond = 0, Loc = UTC\<rparr>"

text \<open>
  A layout is the sequence of its chunks: literal text and the reference-time elements
  that \<^verbatim>\<open>nextStdChunk\<close> finds in it. The three layouts of \<^verbatim>\<open>parseResponse\<close>:
  \<^verbatim>\<open>"2006-01-02"\<close>, \<^verbatim>\<open>"02/01/2006"\<close> and \<^verbatim>\<open>"2006-01-02T15:04:05Z07:00"\<close>.
\<close>

datatype chunk =
    Lit string
  | stdLongYear | stdZeroMonth | stdZeroDay
  | stdHour | stdZeroMinute | stdZeroSecond
  | stdISO8601ColonTZ

definition layoutISO :: "chunk list" where
  "layoutISO = [stdLongYear, Lit ''-'', stdZeroMonth, Lit ''-'', stdZeroDay]"

definition layoutDMY :: "chunk list" where
  "layoutDMY = [stdZeroDay, Lit ''/'', stdZeroMonth, Lit ''/'', stdLongYear]"

definition layoutRFC3339 :: "chunk list" where
  "layoutRFC3339 =
     [stdLongYear, Lit ''-'', stdZeroMonth, Lit ''-'', stdZeroDay, Lit ''T'',
      stdHour, Lit '':'', stdZeroMinute, Lit '':'', stdZeroSecond, stdISO8601ColonTZ]"

text \<open>
  \<^verbatim>\<open>getnum(s, fixed)\<close>: one or two leading digits (exactly two when \<open>fixed\<close>) and the
  rest of the string.
\<close>

definition getnum :: "string \<Rightarrow> bool \<Rightarrow> (nat \<times> string) option" where
  "getnum s fixed =
     (case s of
        [] \<Rightarrow> None
      | c0 # t \<Rightarrow>
          if \<not> isDigit c0 then None
          else
            (case t of
               [] \<Rightarrow> if fixed then None else Some (digitVal c0, t)
             | c1 # t' \<Rightarrow>
                 if \<not> isDigit c1 then (if fixed then None else Some (digitVal c0, t))
                 else Some (digitVal c0 * 10 + digitVal c1, t')))"

definition isLeap :: "int \<Rightarrow> bool" where
  "isLeap y = (y mod 4 = 0 \<and> (y mod 100 \<noteq> 0 \<or> y mod 400 = 0))"

definition daysIn :: "nat \<Rightarrow> int \<Rightarrow> nat" where
  "daysIn m y =
     (if m = 2 then (if isLeap y then 29 else 28)
      else if m = 4 \<or> m = 6 \<or> m = 9 \<or> m = 11 then 30
      else 31)"

text \<open>
  A fractional second in the value after the seconds, which the layout does not
  mention, is accepted: a period or comma and digits, of which the first nine count.
\<close>

definition parseFraction :: "string \<Rightarrow> nat \<times> string" where
  "parseFraction v =
     (if 2 \<le> length v \<and> (hd v = CHR ''.'' \<or> hd v = CHR '','') \<and> isDigit (v ! 1) then
        (let ds = takeWhile isDigit (tl v);
             used = take 9 ds
         in (foldl (\<lambda>n c. n * 10 + digitVal c) 0 used * 10 ^ (9 - length used),
             drop (length ds) (tl v)))
      else (0, v))"

definition parseZone :: "string \<Rightarrow> (Location \<times> string) option" where
  "parseZone v =
     (if v \<noteq> [] \<and> hd v = CHR ''Z'' then Some (UTC, tl v)
      else if length v < 6 then None
      else if v ! 3 \<noteq> CHR '':'' then None
      else
        (case (getnum (take 2 (drop 1 v)) True, getnum (take 2 (drop 4 v)) True) of
           (Some (hr, r1), Some (mm, r2)) \<Rightarrow>
             if 24 < hr \<or> 60 < mm then None
             else if hd v = CHR ''+'' then Some (FixedZone (int ((hr * 60 + mm) * 60)), drop 6 v)
             else if hd v = CHR ''-'' then Some (FixedZone (- int ((hr * 60 + mm) * 60)), drop 6 v)
             else None
         | _ \<Rightarrow> None))"

fun parseChunks :: "chunk list \<Rightarrow> string \<Rightarrow> Time \<Rightarrow> Time option" where
  "parseChunks [] v t = (if v = [] then Some t else None)"
| "parseChunks (Lit p # cs) v t =
     (if HasPrefix v p then parseChunks cs (drop (length p) v) t else None)"
| "parseChunks (stdLongYear # cs) v t =
     (if length v < 4 \<or> \<not> list_all isDigit (take 4 v) then None
      else parseChunks cs (drop 4 v)
             (t\<lparr>Year := int (foldl (\<lambda>n c. n * 10 + digitVal c) 0 (take 4 v))\<rparr>))"
| "parseChunks (stdZeroMonth # cs) v t =
     (case getnum v True of
        None \<Rightarrow> None
      | Some (m, v') \<Rightarrow> if m = 0 \<or> 12 < m then None else parseChunks cs v' (t\<lparr>Month := m\<rparr>))"
| "parseChunks (stdZeroDay # cs) v t =
     (case getnum v True of
        None \<Rightarrow> None
      | Some (d, v') \<Rightarrow> parseChunks cs v' (t\<lparr>Day := d\<rparr>))"
| "parseChunks (stdHour # cs) v t =
     (case getnum v False of
        None \<Rightarrow> None
      | Some (h, v') \<Rightarrow> if 24 \<le> h then None else parseChunks cs v' (t\<lparr>Hour := h\<rparr>))"
| "parseChunks (stdZeroMinute # cs) v t =
     (case getnum v True of
        None \<Rightarrow> None
      | Some (m, v') \<Rightarrow> if 60 \<le> m then None else parseChunks cs v' (t\<lparr>Minute := m\<rparr>))"
| "parseChunks (stdZeroSecond # cs) v t =
     (case getnum v True of
        None \<Rightarrow> None
      | Some (sec, v') \<Rightarrow>
          if 60 \<le> sec then None
          else (case parseFraction v' of
                  (ns, v'') \<Rightarrow> parseChunks cs v'' (t\<lparr>Second := sec, Nanosecond := ns\<rparr>)))"
| "parseChunks (stdISO8601ColonTZ # cs) v t =
     (case parseZone v of
        None \<Rightarrow> None
      | Some (z, v') \<Rightarrow> parseChunks cs v' (t\<lparr>Loc := z\<rparr>))"

text \<open>
  \<^verbatim>\<open>time.Parse(layout, value)\<close>: the elements are read in the order of the layout; the
  day is then checked against the month and the year. A value without a zone is in UTC.
\<close>

definition Parse :: "chunk list \<Rightarrow> string \<Rightarrow> Time option" where
  "Parse layout v =
     (case parseChunks layout v
             \<lparr>Year = 0, Month = 1, Day = 1, Hour = 0, Minute = 0, Second = 0,
              Nanosecond = 0, Loc = UTC\<rparr> of
        None \<Rightarrow> None
      | Some t \<Rightarrow> if Day t < 1 \<or> daysIn (Month t) (Year t) < Day t then None else Some t)"

section \<open>internal/ai/providers.go: helper functions\<close>

datatype error =
    ErrMsg string
  | Wrap string error
  | JSONParseError json_error string

text \<open>
  \<open>ErrMsg m\<close> is an error with the message \<open>m\<close>; \<open>Wrap ctx e\<close> is
  \<^verbatim>\<open>fmt.Errorf(ctx + ": %w", e)\<close>; \<open>JSONParseError e cleaned\<close> is
  \<^verbatim>\<open>fmt.Errorf("JSON parse error: %w\nResponse: %s", e, cleaned)\<close>.
\<close>

definition decodeBase64 :: "string \<Rightarrow> error + byte list" where
  "decodeBase64 s =
     (case ReadFull s (length s) of
        (n, decoded, None) \<Rightarrow> Inr (take n decoded)
      | (n, decoded, Some e) \<Rightarrow> Inl (ErrMsg ''base64 decoding not implemented''))"

definition detectMIMEType :: "byte list \<Rightarrow> string" where
  "detectMIMEType data =
     (if length data < 4 then ''application/octet-stream''
      else if data ! 0 = 0xFF \<and> data ! 1 = 0xD8 then ''image/jpeg''
      else if data ! 0 = 0x89 \<and> data ! 1 = 0x50 \<and> data ! 2 = 0x4E \<and> data ! 3 = 0x47
        then ''image/png''
      else if data ! 0 = 0x47 \<and> data ! 1 = 0x49 \<and> data ! 2 = 0x46 then ''image/gif''
      else if 12 \<le> length data \<and> string_of_bytes (take 4 data) = ''RIFF''
              \<and> string_of_bytes (take 4 (drop 8 data)) = ''WEBP''
        then ''image/webp''
      else ''image/jpeg'')"

text \<open>
  The parts of a Gemini request (\<^verbatim>\<open>GeminiProvider.ExtractData\<close>, up to the call of
  the remote model): the prompt as text and, when an image is supplied, a blob made of
  the sniffed MIME type and the bytes that \<open>decodeBase64\<close> returned.
\<close>

datatype part = Text string | Blob string "byte list"

definition stripDataURI :: "string \<Rightarrow> string" where
  "stripDataURI imageBase64 =
     (if HasPrefix imageBase64 ''data:image'' then
        (let parts = Split imageBase64 (CHR '','')
         in if 1 < length parts then parts ! 1 else imageBase64)
      else imageBase64)"

definition geminiParts :: "string \<Rightarrow> string \<Rightarrow> error + part list" where
  "geminiParts prompt imageBase64 =
     (if imageBase64 \<noteq> [] then
        (case decodeBase64 (stripDataURI imageBase64) of
           Inl e \<Rightarrow> Inl (Wrap ''failed to decode image'' e)
         | Inr imageBytes \<Rightarrow> Inr [Text prompt, Blob (detectMIMEType imageBytes) imageBytes])
      else Inr [Text prompt])"

section \<open>internal/models\<close>

text \<open>
  A \<open>float64\<close> is only ever stored and passed on; \<open>FloatLit m e\<close> stands for the
  float64 nearest to \<open>m * 10 ^ e\<close>.
\<close>

datatype float64 = FloatLit int int

record InvoiceItem =
  Name :: string
  Amount :: Decimal
  IsTaxed :: bool
  Quantity :: int

record Invoice =
  Vendor :: string
  Date :: Time
  Total :: Decimal
  Tax :: Decimal
  Items :: "InvoiceItem list"
  Categories :: "string list"
  RawText :: string
  Confidence :: float64
  ProcessedAt :: Time

section \<open>internal/ai/extractor.go\<close>

text \<open>
  The readings of the clock during one request: the year that \<open>buildPrompt\<close> reads,
  the time at which \<open>parseResponse\<close> builds the invoice, and the measured durations
  of the provider call and of the whole request.
\<close>

record clock =
  promptYear :: int
  parseTime :: Time
  aiSeconds :: float64
  totalSeconds :: float64

function showNat :: "nat \<Rightarrow> string" where
  "showNat n = (if n < 10 then [chr (0x30 + n)] else showNat (n div 10) @ [chr (0x30 + n mod 10)])"
  by pat_completeness auto
termination
  by (relation "measure id") simp_all

definition showInt :: "int \<Rightarrow> string" where
  "showInt i = (if i < 0 then CHR ''-'' # showNat (nat (- i)) else showNat (nat i))"

definition newline :: string where
  "newline = [chr 0x0A]"

definition buildPrompt :: "string list \<Rightarrow> int \<Rightarrow> string \<Rightarrow> string" where
  \<open>buildPrompt cats currentYear ocrText =
     concat
      [''Extract invoice/receipt data from the following text and return ONLY valid JSON.'', newline,
       newline,
       ''Available categories: '', Join cats '', '', newline,
       newline,
       ''Return JSON with this EXACT structure (no markdown, no code blocks):'', newline,
       ''{'', newline,
       ''  "vendor": "merchant/store name",'', newline,
       ''  "date": "YYYY-MM-DD",'', newline,
       ''  "total": 123.45,'', newline,
       ''  "tax": 12.34,'', newline,
       ''  "items": ['', newline,
       ''    {'', newline,
       ''      "name": "item name",'', newline,
       ''      "amount": 10.50,'', newline,
       ''      "isTaxed": true,'', newline,
       ''      "quantity": 1'', newline,
       ''    }'', newline,
       ''  ],'', newline,
       ''  "categories": ["category1", "category2"]'', newline,
       ''}'', newline,
       newline,
       ''Rules:'', newline,
       ''- Use '', [chr 0x27], ''Unknown Vendor'', [chr 0x27], '' if store name cannot be found'', newline,
       ''- Omit fields if not found with confidence'', newline,
       ''- Assume year is '', showInt currentYear, '' if not specified'', newline,
       ''- Total and amounts must be numbers (not strings)'', newline,
       ''- Select up to 2 categories from the provided list'', newline,
       ''- Extract individual items if visible in the receipt'', newline,
       newline,
       ''Receipt text:'', newline,
       ocrText]\<close>

definition cleanResponse :: "string \<Rightarrow> string" where
  "cleanResponse response =
     TrimSpace (ReplaceAll (ReplaceAll (TrimSpace response) ''```json'' []) ''```'' [])"

definition parseDate :: "string \<Rightarrow> Time option" where
  "parseDate d =
     (case Parse layoutISO d of
        Some t \<Rightarrow> Some t
      | None \<Rightarrow>
          (case Parse layoutDMY d of
             Some t \<Rightarrow> Some t
           | None \<Rightarrow> Parse layoutRFC3339 d))"

definition parseAmount :: "string \<Rightarrow> Decimal" where
  "parseAmount n = (case NewFromString n of Inr d \<Rightarrow> d | Inl e \<Rightarrow> zeroDecimal)"

definition buildItem :: "rawItem \<Rightarrow> InvoiceItem" where
  "buildItem item =
     \<lparr>Name = name item, Amount = parseAmount (amount item),
      IsTaxed = isTaxed item, Quantity = quantity item\<rparr>"

definition parseResponse :: "Time \<Rightarrow> string \<Rightarrow> string \<Rightarrow> error + Invoice" where
  "parseResponse now response ocrText =
     (let cleaned = cleanResponse response in
      case Unmarshal cleaned of
        Inl err \<Rightarrow> Inl (JSONParseError err cleaned)
      | Inr r \<Rightarrow>
          Inr \<lparr>Vendor = vendor r,
               Date = (if date r \<noteq> [] then
                         (case parseDate (date r) of Some t \<Rightarrow> t | None \<Rightarrow> zeroTime)
                       else zeroTime),
               Total = (if total r \<noteq> [] then parseAmount (total r) else zeroDecimal),
               Tax = (if tax r \<noteq> [] then parseAmount (tax r) else zeroDecimal),
               Items = map buildItem (elems (items r)),
               Categories = elems (categories r),
               RawText = ocrText,
               Confidence = FloatLit 85 (- 2),
               ProcessedAt = now\<rparr>)"

text \<open>
  A provider is one of the three backends with the settings it was built from. The
  remote service behind \<^verbatim>\<open>Provider.ExtractData\<close> is a parameter of the model.
\<close>

datatype Provider =
    OpenAIProvider string string string
  | GeminiProvider string string
  | OllamaProvider string string

definition NewOpenAIProvider :: "string \<Rightarrow> string \<Rightarrow> string \<Rightarrow> Provider" where
  "NewOpenAIProvider apiKey baseURL model =
     OpenAIProvider apiKey baseURL (if model = [] then ''gpt-4'' else model)"

definition NewGeminiProvider :: "string \<Rightarrow> string \<Rightarrow> Provider" where
  "NewGeminiProvider apiKey model =
     GeminiProvider apiKey (if model = [] then ''gemini-pro'' else model)"

definition NewOllamaProvider :: "string \<Rightarrow> string \<Rightarrow> Provider" where
  "NewOllamaProvider baseURL model =
     OllamaProvider (if baseURL = [] then ''http://localhost:11434'' else baseURL)
                    (if model = [] then ''mistral'' else model)"

text \<open>
  The collaborators of a request: the image preprocessor (by its scale flag and the
  image), the text recognizer (by its language and the image) and the providers (by
  the provider, the prompt and the image string). Every call is written to a log, in
  the order of the calls.
\<close>

record env =
  PreprocessImageFromBytes :: "bool \<Rightarrow> byte list \<Rightarrow> error + byte list"
  ExtractText :: "string \<Rightarrow> byte list \<Rightarrow> error + (string \<times> float64)"
  ExtractData :: "Provider \<Rightarrow> string \<Rightarrow> string \<Rightarrow> error + string"

datatype call =
    PreprocessCall bool "byte list"
  | OCRCall string "byte list"
  | ProviderCall Provider string string

definition zeroFloat :: float64 where
  "zeroFloat = FloatLit 0 0"

definition Extract :: "env \<Rightarrow> Provider \<Rightarrow> string list \<Rightarrow> clock \<Rightarrow> string \<Rightarrow> string \<Rightarrow> call list \<times> Invoice option \<times> float64 \<times> error option" where
  "Extract e provider cats clk ocrText imageBase64 =
     (let prompt = buildPrompt cats (promptYear clk) ocrText;
          log = [ProviderCall provider prompt imageBase64]
      in case ExtractData e provider prompt imageBase64 of
           Inl err \<Rightarrow> (log, None, zeroFloat, Some (Wrap ''AI extraction failed'' err))
         | Inr response \<Rightarrow>
             (case parseResponse (parseTime clk) response ocrText of
                Inl err \<Rightarrow> (log, None, aiSeconds clk, Some (Wrap ''failed to parse AI response'' err))
              | Inr invoice \<Rightarrow> (log, Some invoice, aiSeconds clk, None)))"

section \<open>internal/ocr\<close>

definition NewTesseractOCR :: "string \<Rightarrow> string" where
  "NewTesseractOCR language = (if language = [] then ''eng'' else language)"

section \<open>api/handler.go\<close>

record OCRConfig =
  Engine :: string
  Language :: string

record OpenAIConfig =
  OpenAIKey :: string
  OpenAIBaseURL :: string
  OpenAIModel :: string

record GeminiConfig =
  GeminiKey :: string
  GeminiModel :: string

record OllamaConfig =
  OllamaBaseURL :: string
  OllamaModel :: string

record AIConfig =
  OpenAI :: OpenAIConfig
  Gemini :: GeminiConfig
  Ollama :: OllamaConfig
  DefaultProvider :: string

record Config =
  Port :: int
  Host :: string
  OCR :: OCRConfig
  AI :: AIConfig
  CategoryList :: "string list"

definition MaxUploadSize :: nat where
  "MaxUploadSize = 10 * 1024 * 1024"

definition createProvider :: "Config \<Rightarrow> string \<Rightarrow> string \<Rightarrow> error + Provider" where
  "createProvider cfg providerName modelName =
     (if providerName = ''openai'' then
        Inr (NewOpenAIProvider (OpenAIKey (OpenAI (AI cfg))) (OpenAIBaseURL (OpenAI (AI cfg)))
               (if modelName = [] then OpenAIModel (OpenAI (AI cfg)) else modelName))
      else if providerName = ''gemini'' then
        Inr (NewGeminiProvider (GeminiKey (Gemini (AI cfg)))
               (if modelName = [] then GeminiModel (Gemini (AI cfg)) else modelName))
      else if providerName = ''ollama'' then
        Inr (NewOllamaProvider (OllamaBaseURL (Ollama (AI cfg)))
               (if modelName = [] then OllamaModel (Ollama (AI cfg)) else modelName))
      else Inl (ErrMsg (''unsupported AI provider: '' @ providerName)))"

text \<open>
  \<open>processInvoice\<close> returns the log of the calls it made and the four results of the
  Go function: the invoice, the two durations and the error.
\<close>

type_synonym outcome = "Invoice option \<times> float64 \<times> float64 \<times> error option"

definition processInvoice :: "env \<Rightarrow> Config \<Rightarrow> clock \<Rightarrow> byte list \<Rightarrow> bool \<Rightarrow> string \<Rightarrow> string \<Rightarrow> string \<Rightarrow> call list \<times> outcome" where
  "processInvoice e cfg clk imageData useVisionModel providerName modelName language =
     (let scale = (Engine (OCR cfg) = ''easyocr'');
          log1 = [PreprocessCall scale imageData]
      in case PreprocessImageFromBytes e scale imageData of
           Inl err \<Rightarrow>
             (log1, None, zeroFloat, zeroFloat, Some (Wrap ''image preprocessing failed'' err))
         | Inr processedImage \<Rightarrow>
             (case (if useVisionModel then
                      Inr ([], zeroFloat,
                           ''data:image/jpeg;base64,'' @ EncodeToString processedImage, log1)
                    else
                      (case ExtractText e (NewTesseractOCR language) processedImage of
                         Inl err \<Rightarrow>
                           Inl (log1 @ [OCRCall (NewTesseractOCR language) processedImage], err)
                       | Inr (text, duration) \<Rightarrow>
                           Inr (text, duration, [],
                                log1 @ [OCRCall (NewTesseractOCR language) processedImage]))) of
                Inl (log2, err) \<Rightarrow>
                  (log2, None, zeroFloat, zeroFloat, Some (Wrap ''OCR failed'' err))
              | Inr (ocrText, ocrDuration, imageBase64, log2) \<Rightarrow>
                  (case createProvider cfg providerName modelName of
                     Inl err \<Rightarrow> (log2, None, ocrDuration, zeroFloat, Some err)
                   | Inr provider \<Rightarrow>
                       (case Extract e provider (CategoryList cfg) clk ocrText imageBase64 of
                          (log3, invoice, aiDuration, Some err) \<Rightarrow>
                            (log2 @ log3, None, ocrDuration, zeroFloat,
                             Some (Wrap ''AI extraction failed'' err))
                        | (log3, invoice, aiDuration, None) \<Rightarrow>
                            (log2 @ log3, invoice, ocrDuration, aiDuration, None)))))"

text \<open>
  A request: the size of its body, whether the body is a well-formed multipart form,
  the part named \<^verbatim>\<open>file\<close> (absent, unreadable, or its bytes) and the values of the
  form. \<^verbatim>\<open>ParseMultipartForm\<close> behind a \<^verbatim>\<open>MaxBytesReader\<close> fails when the body is
  larger than \<open>MaxUploadSize\<close> or is no multipart form.
\<close>

datatype filePart = NoFile | Unreadable | FileBytes "byte list"

record Request =
  bodySize :: nat
  wellFormed :: bool
  filePart :: filePart
  FormValue :: "string \<Rightarrow> string"

record ProcessResponse =
  Success :: bool
  InvoiceField :: "Invoice option"
  Error :: "error option"
  OCRDuration :: float64
  AIDuration :: float64
  TotalDuration :: float64

datatype body = ErrorBody string | ProcessBody ProcessResponse

record Response =
  StatusCode :: nat
  Body :: body

definition sendError :: "nat \<Rightarrow> string \<Rightarrow> Response" where
  "sendError statusCode message = \<lparr>StatusCode = statusCode, Body = ErrorBody message\<rparr>"

definition ParseMultipartForm :: "Request \<Rightarrow> bool" where
  "ParseMultipartForm r = (bodySize r \<le> MaxUploadSize \<and> wellFormed r)"

definition ProcessInvoice :: "env \<Rightarrow> Config \<Rightarrow> clock \<Rightarrow> Request \<Rightarrow> call list \<times> Response" where
  "ProcessInvoice e cfg clk r =
     (if \<not> ParseMultipartForm r then
        ([], sendError 400 ''File too large or invalid form data'')
      else
        (case filePart r of
           NoFile \<Rightarrow> ([], sendError 400 ''No file provided'')
         | Unreadable \<Rightarrow> ([], sendError 500 ''Failed to read file'')
         | FileBytes imageData \<Rightarrow>
             (let useVisionModel = (FormValue r ''useVisionModel'' = ''true'');
                  aiProvider = (if FormValue r ''aiProvider'' = []
                                then DefaultProvider (AI cfg) else FormValue r ''aiProvider'');
                  model = FormValue r ''model'';
                  language = (if FormValue r ''language'' = []
                              then Language (OCR cfg) else FormValue r ''language'')
              in case processInvoice e cfg clk imageData useVisionModel aiProvider model language of
                   (log, invoice, ocrDuration, aiDuration, Some err) \<Rightarrow>
                     (log, \<lparr>StatusCode = 200,
                            Body = ProcessBody
                              \<lparr>Success = False, InvoiceField = None, Error = Some err,
                               OCRDuration = zeroFloat, AIDuration = zeroFloat,
                               TotalDuration = totalSeconds clk\<rparr>\<rparr>)
                 | (log, invoice, ocrDuration, aiDuration, None) \<Rightarrow>
                     (log, \<lparr>StatusCode = 200,
                            Body = ProcessBody
                              \<lparr>Success = True, InvoiceField = invoice, Error = None,
                               OCRDuration = ocrDuration, AIDuration = aiDuration,
                               TotalDuration = totalSeconds clk\<rparr>\<rparr>))))"

subsection \<open>A stub environment\<close>

text \<open>
  Collaborators that always succeed, and variants in which one of them fails; a
  configuration, clock readings and requests to run the handler on.
\<close>

definition stubImage :: "byte list" where
  "stubImage = [0xFF, 0xD8, 0xFF, 0xE0]"

definition stubEnv :: env where
  "stubEnv =
     \<lparr>PreprocessImageFromBytes = (\<lambda>scale img. Inr img),
      ExtractText = (\<lambda>lang img. Inr (''TOTAL 5'', FloatLit 2 0)),
      ExtractData = (\<lambda>p prompt image. Inr ''{}'')\<rparr>"

definition noImageEnv :: env where
  "noImageEnv = stubEnv\<lparr>PreprocessImageFromBytes := (\<lambda>scale img. Inl (ErrMsg ''failed to read image''))\<rparr>"

definition stubConfig :: Config where
  "stubConfig =
     \<lparr>Port = 8080, Host = ''0.0.0.0'',
      OCR = \<lparr>Engine = ''tesseract'', Language = ''eng''\<rparr>,
      AI = \<lparr>OpenAI = \<lparr>OpenAIKey = ''k'', OpenAIBaseURL = [], OpenAIModel = ''gpt-4''\<rparr>,
            Gemini = \<lparr>GeminiKey = ''k'', GeminiModel = ''gemini-pro''\<rparr>,
            Ollama = \<lparr>OllamaBaseURL = [], OllamaModel = ''mistral''\<rparr>,
            DefaultProvider = ''openai''\<rparr>,
      CategoryList = [''Food'']\<rparr>"

definition stubClock :: clock where
  "stubClock =
     \<lparr>promptYear = 2024, parseTime = zeroTime, aiSeconds = FloatLit 1 0,
      totalSeconds = FloatLit 3 0\<rparr>"

definition stubRequest :: "string \<Rightarrow> string \<Rightarrow> Request" where
  "stubRequest vision provider =
     \<lparr>bodySize = 4, wellFormed = True, filePart = FileBytes stubImage,
      FormValue = (\<lambda>k. if k = ''useVisionModel'' then vision
                        else if k = ''aiProvider'' then provider else [])\<rparr>"

definition oversizedRequest :: Request where
  "oversizedRequest = (stubRequest ''false'' ''openai'')\<lparr>bodySize := MaxUploadSize + 1\<rparr>"

subsection \<open>Sample answers of a provider\<close>

text \<open>
  Three answers to run \<open>parseResponse\<close> on, each with the struct that
  \<open>Unmarshal\<close> decodes it to.
\<close>

definition acmeAnswer :: string where
  \<open>acmeAnswer = ''{"vendor":"Acme","date":"2024-03-01","total":"12.50","tax":"1.00","items":[{"name":"Widget","amount":"12.50","isTaxed":true,"quantity":2}],"categories":["Shopping"]}''\<close>

definition acmeRaw :: raw where
  "acmeRaw =
     \<lparr>vendor = ''Acme'', date = ''2024-03-01'', total = ''12.50'', tax = ''1.00'',
      categories = \<lparr>elems = [''Shopping''], spare = []\<rparr>,
      items = \<lparr>elems = [\<lparr>name = ''Widget'', amount = ''12.50'', isTaxed = True, quantity = 2\<rparr>],
               spare = []\<rparr>\<rparr>"

definition marchAnswer :: string where
  \<open>marchAnswer = ''{"vendor":"Acme","date":"March 1st","total":12.5}''\<close>

definition marchRaw :: raw where
  "marchRaw = \<lparr>vendor = ''Acme'', date = ''March 1st'', total = ''12.5'', tax = [],
               categories = nilSlice, items = nilSlice\<rparr>"

definition itemsAnswer :: string where
  \<open>itemsAnswer = ''{"items":[{"name":"A"},{"name":"B","quantity":-3}]}''\<close>

definition itemsRaw :: raw where
  "itemsRaw =
     \<lparr>vendor = [], date = [], total = [], tax = [], categories = nilSlice,
      items = \<lparr>elems = [\<lparr>name = ''A'', amount = [], isTaxed = False, quantity = 0\<rparr>,
                        \<lparr>name = ''B'', amount = [], isTaxed = False, quantity = - 3\<rparr>],
               spare = []\<rparr>\<rparr>"

section \<open>Properties\<close>

subsection \<open>Bytes and characters\<close>

lemma char_of_unat_of_char: "char_of (unat (of_char c :: byte)) = c"
proof -
  have "(of_char c :: byte) = of_nat (of_char c)"
    by (simp add: of_nat_of_char)
  then have "unat (of_char c :: byte) = (of_char c :: nat) mod 256"
    by (simp only: unat_of_nat) simp
  then show ?thesis by simp
qed

lemma of_char_char_of_unat: "(of_char (char_of (unat w)) :: byte) = w"
proof -
  have "(of_char (char_of (unat w)) :: byte) = of_nat (of_char (char_of (unat w)) :: nat)"
    by (simp only: of_nat_of_char)
  also have "\<dots> = of_nat (unat w mod 256)"
    by (simp only: of_char_of)
  also have "\<dots> = w"
    using unsigned_less [of w, where ?'a = nat] by simp
  finally show ?thesis .
qed

lemma string_of_bytes_inverse: "string_of_bytes (bytes_of_string s) = s"
  by (simp add: string_of_bytes_def bytes_of_string_def comp_def char_of_unat_of_char map_idI)

lemma bytes_of_string_inverse: "bytes_of_string (string_of_bytes b) = b"
  by (simp add: string_of_bytes_def bytes_of_string_def comp_def of_char_char_of_unat map_idI)

lemma string_of_bytes_eq_iff: "string_of_bytes b = s \<longleftrightarrow> b = bytes_of_string s"
  using string_of_bytes_inverse bytes_of_string_inverse by auto

lemma length4E:
  assumes "4 \<le> length (d :: 'a list)"
  obtains a b c e r where "d = a # b # c # e # r"
proof -
  from assms obtain a d1 where 1: "d = a # d1" by (cases d) auto
  with assms obtain b d2 where 2: "d1 = b # d2" by (cases d1) auto
  with 1 assms obtain c d3 where 3: "d2 = c # d3" by (cases d2) auto
  with 1 2 assms obtain e r where 4: "d3 = e # r" by (cases d3) auto
  from 1 2 3 4 that show thesis by blast
qed

subsection \<open>MIME sniffing\<close>

text \<open>
  Claim C3, as amended. \<open>detectMIMEType\<close> answers \<^verbatim>\<open>application/octet-stream\<close> for every
  input of fewer than four bytes. For an input of at least four bytes it answers
  \<^verbatim>\<open>image/jpeg\<close> when the input starts with FF D8, \<^verbatim>\<open>image/png\<close> when it starts with
  89 50 4E 47, \<^verbatim>\<open>image/gif\<close> when it starts with 47 49 46, \<^verbatim>\<open>image/webp\<close> when it has
  at least twelve bytes, bytes 0 to 3 are RIFF and bytes 8 to 11 are WEBP, and
  \<^verbatim>\<open>image/jpeg\<close> in every other case.
\<close>

theorem detectMIMEType_by_magic:
  "(length d < 4 \<longrightarrow> detectMIMEType d = ''application/octet-stream'') \<and>
   (4 \<le> length d \<and> take 2 d = [0xFF, 0xD8] \<longrightarrow> detectMIMEType d = ''image/jpeg'') \<and>
   (4 \<le> length d \<and> take 4 d = [0x89, 0x50, 0x4E, 0x47] \<longrightarrow> detectMIMEType d = ''image/png'') \<and>
   (4 \<le> length d \<and> take 3 d = [0x47, 0x49, 0x46] \<longrightarrow> detectMIMEType d = ''image/gif'') \<and>
   (12 \<le> length d \<and> take 4 d = bytes_of_string ''RIFF''
      \<and> take 4 (drop 8 d) = bytes_of_string ''WEBP'' \<longrightarrow> detectMIMEType d = ''image/webp'') \<and>
   (4 \<le> length d \<and> take 2 d \<noteq> [0xFF, 0xD8] \<and> take 4 d \<noteq> [0x89, 0x50, 0x4E, 0x47]
      \<and> take 3 d \<noteq> [0x47, 0x49, 0x46]
      \<and> \<not> (12 \<le> length d \<and> take 4 d = bytes_of_string ''RIFF''
             \<and> take 4 (drop 8 d) = bytes_of_string ''WEBP'')
      \<longrightarrow> detectMIMEType d = ''image/jpeg'')"
proof (cases "4 \<le> length d")
  case False
  then show ?thesis by (simp add: detectMIMEType_def)
next
  case True
  then obtain a b c e r where d: "d = a # b # c # e # r" by (rule length4E)
  show ?thesis
    unfolding d detectMIMEType_def string_of_bytes_eq_iff
    by (simp add: bytes_of_string_def)
qed

theorem detectMIMEType_by_magic_witness:
  "detectMIMEType [0xFF, 0xD8, 0xFF] = ''application/octet-stream'' \<and>
   detectMIMEType [0xFF, 0xD8, 0xFF, 0xE0] = ''image/jpeg'' \<and>
   detectMIMEType [0x89, 0x50, 0x4E, 0x47, 0x0D, 0x0A, 0x1A, 0x0A] = ''image/png'' \<and>
   detectMIMEType (bytes_of_string ''GIF89a'') = ''image/gif'' \<and>
   detectMIMEType (bytes_of_string ''RIFF0000WEBPVP8 '') = ''image/webp'' \<and>
   detectMIMEType (bytes_of_string ''BM00'') = ''image/jpeg''"
  using detectMIMEType_by_magic [of "[0xFF, 0xD8, 0xFF]"]
    detectMIMEType_by_magic [of "[0xFF, 0xD8, 0xFF, 0xE0]"]
    detectMIMEType_by_magic [of "[0x89, 0x50, 0x4E, 0x47, 0x0D, 0x0A, 0x1A, 0x0A]"]
    detectMIMEType_by_magic [of "bytes_of_string ''GIF89a''"]
    detectMIMEType_by_magic [of "bytes_of_string ''RIFF0000WEBPVP8 ''"]
    detectMIMEType_by_magic [of "bytes_of_string ''BM00''"]
  by (simp add: bytes_of_string_def)

text \<open>
  The claim as first stated fails on short inputs: the two bytes FF D8 are not
  sniffed as \<^verbatim>\<open>image/jpeg\<close>, and the empty input does not get the default.
\<close>

theorem detectMIMEType_short_counterexample:
  "detectMIMEType [0xFF, 0xD8] = ''application/octet-stream'' \<and>
   detectMIMEType [0xFF, 0xD8] \<noteq> ''image/jpeg'' \<and>
   detectMIMEType [] \<noteq> ''image/jpeg''"
  by (simp add: detectMIMEType_def)

subsection \<open>The base64 helper of the Gemini backend\<close>

lemma ReadFull_whole: "ReadFull s (length s) = (length s, bytes_of_string s, None)"
  by (simp add: ReadFull_def)

lemma decodeBase64_copies: "decodeBase64 s = Inr (bytes_of_string s)"
  by (simp add: decodeBase64_def ReadFull_whole bytes_of_string_def)

text \<open>
  Claim C4 fails on the code: \<open>decodeBase64\<close> returns the bytes of the base64 text
  itself. For the PNG signature 89 50 4E 47 0D 0A 1A 0A, sent as a data URI, the helper
  returns the twelve characters of the encoding, and the blob of the request carries
  them under the MIME type \<^verbatim>\<open>image/jpeg\<close>.
\<close>

theorem decodeBase64_png_not_decoded:
  "EncodeToString [0x89, 0x50, 0x4E, 0x47, 0x0D, 0x0A, 0x1A, 0x0A] = ''iVBORw0KGgo='' \<and>
   decodeBase64 ''iVBORw0KGgo='' = Inr (bytes_of_string ''iVBORw0KGgo='') \<and>
   decodeBase64 ''iVBORw0KGgo='' \<noteq> Inr [0x89, 0x50, 0x4E, 0x47, 0x0D, 0x0A, 0x1A, 0x0A] \<and>
   geminiParts ''p'' ''data:image/png;base64,iVBORw0KGgo='' =
     Inr [Text ''p'', Blob ''image/jpeg'' (bytes_of_string ''iVBORw0KGgo='')]"
proof -
  have 1: "EncodeToString [0x89, 0x50, 0x4E, 0x47, 0x0D, 0x0A, 0x1A, 0x0A] = ''iVBORw0KGgo=''"
    by (simp add: enc6_def encodeStd_def)
  have 2: "decodeBase64 ''iVBORw0KGgo='' \<noteq> Inr [0x89, 0x50, 0x4E, 0x47, 0x0D, 0x0A, 0x1A, 0x0A]"
    by (simp add: decodeBase64_copies bytes_of_string_def)
  have 3: "stripDataURI ''data:image/png;base64,iVBORw0KGgo='' = ''iVBORw0KGgo=''"
    by (simp add: stripDataURI_def HasPrefix_def)
  have 4: "detectMIMEType (bytes_of_string ''iVBORw0KGgo='') = ''image/jpeg''"
    unfolding detectMIMEType_def string_of_bytes_eq_iff by (simp add: bytes_of_string_def)
  have 5: "geminiParts ''p'' ''data:image/png;base64,iVBORw0KGgo='' =
     Inr [Text ''p'', Blob ''image/jpeg'' (bytes_of_string ''iVBORw0KGgo='')]"
    unfolding geminiParts_def 3 decodeBase64_copies using 4 by simp
  from 1 2 5 show ?thesis by (simp add: decodeBase64_copies)
qed

subsection \<open>The request pipeline\<close>

text \<open>
  Steps 3 and 4 of \<open>processInvoice\<close>, once the image work is done: the provider is
  created, called through \<open>Extract\<close>, and its answer parsed.
\<close>

definition afterImage :: "env \<Rightarrow> Config \<Rightarrow> clock \<Rightarrow> call list \<Rightarrow> string \<Rightarrow> float64 \<Rightarrow> string \<Rightarrow> string \<Rightarrow> string \<Rightarrow> call list \<times> outcome" where
  "afterImage e cfg clk log2 ocrText ocrDuration imageBase64 pn mn =
     (case createProvider cfg pn mn of
        Inl err \<Rightarrow> (log2, None, ocrDuration, zeroFloat, Some err)
      | Inr provider \<Rightarrow>
          (case ExtractData e provider (buildPrompt (CategoryList cfg) (promptYear clk) ocrText) imageBase64 of
             Inl err \<Rightarrow>
               (log2 @ [ProviderCall provider (buildPrompt (CategoryList cfg) (promptYear clk) ocrText) imageBase64],
                None, ocrDuration, zeroFloat,
                Some (Wrap ''AI extraction failed'' (Wrap ''AI extraction failed'' err)))
           | Inr response \<Rightarrow>
               (case parseResponse (parseTime clk) response ocrText of
                  Inl err \<Rightarrow>
                    (log2 @ [ProviderCall provider (buildPrompt (CategoryList cfg) (promptYear clk) ocrText) imageBase64],
                     None, ocrDuration, zeroFloat,
                     Some (Wrap ''AI extraction failed'' (Wrap ''failed to parse AI response'' err)))
                | Inr invoice \<Rightarrow>
                    (log2 @ [ProviderCall provider (buildPrompt (CategoryList cfg) (promptYear clk) ocrText) imageBase64],
                     Some invoice, ocrDuration, aiSeconds clk, None))))"

lemma processInvoice_preprocess_fails:
  "PreprocessImageFromBytes e (Engine (OCR cfg) = ''easyocr'') img = Inl err \<Longrightarrow>
   processInvoice e cfg clk img v pn mn lang =
     ([PreprocessCall (Engine (OCR cfg) = ''easyocr'') img],
      None, zeroFloat, zeroFloat, Some (Wrap ''image preprocessing failed'' err))"
  by (simp add: processInvoice_def)

lemma processInvoice_ocr_fails:
  "PreprocessImageFromBytes e (Engine (OCR cfg) = ''easyocr'') img = Inr processed \<Longrightarrow>
   ExtractText e (NewTesseractOCR lang) processed = Inl err \<Longrightarrow>
   processInvoice e cfg clk img False pn mn lang =
     ([PreprocessCall (Engine (OCR cfg) = ''easyocr'') img, OCRCall (NewTesseractOCR lang) processed],
      None, zeroFloat, zeroFloat, Some (Wrap ''OCR failed'' err))"
  by (simp add: processInvoice_def)

lemma processInvoice_vision:
  "PreprocessImageFromBytes e (Engine (OCR cfg) = ''easyocr'') img = Inr processed \<Longrightarrow>
   processInvoice e cfg clk img True pn mn lang =
     afterImage e cfg clk [PreprocessCall (Engine (OCR cfg) = ''easyocr'') img] [] zeroFloat
       (''data:image/jpeg;base64,'' @ EncodeToString processed) pn mn"
  by (simp add: processInvoice_def afterImage_def Extract_def Let_def split: sum.splits)

lemma processInvoice_ocr:
  "PreprocessImageFromBytes e (Engine (OCR cfg) = ''easyocr'') img = Inr processed \<Longrightarrow>
   ExtractText e (NewTesseractOCR lang) processed = Inr (text, duration) \<Longrightarrow>
   processInvoice e cfg clk img False pn mn lang =
     afterImage e cfg clk
       [PreprocessCall (Engine (OCR cfg) = ''easyocr'') img, OCRCall (NewTesseractOCR lang) processed]
       text duration [] pn mn"
  by (simp add: processInvoice_def afterImage_def Extract_def Let_def split: sum.splits)

lemma afterImage_outcome:
  "\<exists>log invoice d1 d2 er.
     afterImage e cfg clk log2 ocrText ocrDuration imageBase64 pn mn = (log, invoice, d1, d2, er)
     \<and> (\<forall>err. createProvider cfg pn mn = Inl err \<longrightarrow> er = Some err)
     \<and> (\<forall>provider err.
           createProvider cfg pn mn = Inr provider
           \<and> ExtractData e provider (buildPrompt (CategoryList cfg) (promptYear clk) ocrText)
                imageBase64 = Inl err \<longrightarrow>
           er = Some (Wrap ''AI extraction failed'' (Wrap ''AI extraction failed'' err)))
     \<and> (\<forall>provider response err.
           createProvider cfg pn mn = Inr provider
           \<and> ExtractData e provider (buildPrompt (CategoryList cfg) (promptYear clk) ocrText)
                imageBase64 = Inr response
           \<and> parseResponse (parseTime clk) response ocrText = Inl err \<longrightarrow>
           er = Some (Wrap ''AI extraction failed'' (Wrap ''failed to parse AI response'' err)))"
  by (simp add: afterImage_def split: sum.splits)

lemma ProcessInvoice_accepted:
  assumes "ParseMultipartForm r" and "filePart r = FileBytes img"
    and "processInvoice e cfg clk img (FormValue r ''useVisionModel'' = ''true'')
           (if FormValue r ''aiProvider'' = [] then DefaultProvider (AI cfg) else FormValue r ''aiProvider'')
           (FormValue r ''model'')
           (if FormValue r ''language'' = [] then Language (OCR cfg) else FormValue r ''language'')
         = (log, invoice, d1, d2, er)"
  shows "ProcessInvoice e cfg clk r =
     (log, \<lparr>StatusCode = 200,
            Body = ProcessBody
              \<lparr>Success = (er = None), InvoiceField = (if er = None then invoice else None),
               Error = er, OCRDuration = (if er = None then d1 else zeroFloat),
               AIDuration = (if er = None then d2 else zeroFloat),
               TotalDuration = totalSeconds clk\<rparr>\<rparr>)"
  using assms by (cases er) (simp_all add: ProcessInvoice_def Let_def)

lemma parseResponse_RawText:
  "parseResponse now response ocrText = Inr invoice \<Longrightarrow> RawText invoice = ocrText"
  by (auto simp: parseResponse_def Let_def split: sum.splits)

lemma afterImage_shape:
  assumes "afterImage e cfg clk log2 ocrText d imageBase64 pn mn = (log, invoice, d1, d2, er)"
  shows "(log = log2
          \<or> (\<exists>p. log = log2 @ [ProviderCall p (buildPrompt (CategoryList cfg) (promptYear clk) ocrText) imageBase64]))
         \<and> (\<forall>i. invoice = Some i \<longrightarrow> RawText i = ocrText)"
  using assms by (auto simp: afterImage_def parseResponse_RawText split: sum.splits)

lemma createProvider_unsupported:
  assumes "providerName \<noteq> ''openai''" "providerName \<noteq> ''gemini''" "providerName \<noteq> ''ollama''"
  shows "createProvider cfg providerName modelName = Inl (ErrMsg (''unsupported AI provider: '' @ providerName))"
  using assms by (simp add: createProvider_def)

lemma afterImage_calls:
  assumes "createProvider cfg pn mn = Inr p"
  shows "\<exists>invoice d1 d2 er.
     afterImage e cfg clk log2 ocrText d imageBase64 pn mn =
       (log2 @ [ProviderCall p (buildPrompt (CategoryList cfg) (promptYear clk) ocrText) imageBase64],
        invoice, d1, d2, er)"
  using assms by (simp add: afterImage_def split: sum.splits)

lemma processInvoice_vision_facts:
  assumes p: "processInvoice e cfg clk imageData True pn mn lang = (log, invoice, d1, d2, er)"
    and s: "scale = (Engine (OCR cfg) = ''easyocr'')"
  shows "(\<forall>l i. OCRCall l i \<notin> set log)
     \<and> (\<forall>p prompt imageBase64. ProviderCall p prompt imageBase64 \<in> set log \<longrightarrow>
           (\<exists>processed. PreprocessImageFromBytes e scale imageData = Inr processed
              \<and> imageBase64 = ''data:image/jpeg;base64,'' @ EncodeToString processed))
     \<and> (\<forall>processed p.
           PreprocessImageFromBytes e scale imageData = Inr processed
           \<and> createProvider cfg pn mn = Inr p \<longrightarrow>
           ProviderCall p (buildPrompt (CategoryList cfg) (promptYear clk) [])
             (''data:image/jpeg;base64,'' @ EncodeToString processed) \<in> set log)
     \<and> (\<forall>i. invoice = Some i \<longrightarrow> RawText i = [])"
proof (cases "PreprocessImageFromBytes e scale imageData")
  case (Inl err)
  with processInvoice_preprocess_fails [of e cfg imageData err clk True pn mn lang] p s
  show ?thesis by auto
next
  case (Inr processed)
  with processInvoice_vision [of e cfg imageData processed clk pn mn lang] p s
  have a: "afterImage e cfg clk [PreprocessCall scale imageData] [] zeroFloat
       (''data:image/jpeg;base64,'' @ EncodeToString processed) pn mn = (log, invoice, d1, d2, er)"
    by simp
  from afterImage_shape [OF a] afterImage_calls [of cfg pn mn _ e clk "[PreprocessCall scale imageData]" "[]"
      zeroFloat "''data:image/jpeg;base64,'' @ EncodeToString processed"] a Inr
  show ?thesis by auto
qed

lemma processInvoice_ocr_facts:
  assumes p: "processInvoice e cfg clk imageData False pn mn lang = (log, invoice, d1, d2, er)"
    and s: "scale = (Engine (OCR cfg) = ''easyocr'')"
  shows "(\<forall>processed. PreprocessImageFromBytes e scale imageData = Inr processed \<longrightarrow>
           OCRCall (NewTesseractOCR lang) processed \<in> set log)
     \<and> (\<forall>p prompt imageBase64. ProviderCall p prompt imageBase64 \<in> set log \<longrightarrow>
           imageBase64 = []
           \<and> (\<exists>processed ocrText duration.
                 PreprocessImageFromBytes e scale imageData = Inr processed
                 \<and> ExtractText e (NewTesseractOCR lang) processed = Inr (ocrText, duration)
                 \<and> prompt = buildPrompt (CategoryList cfg) (promptYear clk) ocrText))"
proof (cases "PreprocessImageFromBytes e scale imageData")
  case (Inl err)
  with processInvoice_preprocess_fails [of e cfg imageData err clk False pn mn lang] p s
  show ?thesis by auto
next
  case pre: (Inr processed)
  show ?thesis
  proof (cases "ExtractText e (NewTesseractOCR lang) processed")
    case (Inl err)
    with processInvoice_ocr_fails [of e cfg imageData processed lang err clk pn mn] p s pre
    show ?thesis by auto
  next
    case (Inr td)
    obtain ocrText duration where td: "td = (ocrText, duration)" by (cases td)
    with processInvoice_ocr [of e cfg imageData processed lang ocrText duration clk pn mn] p s pre Inr
    have a: "afterImage e cfg clk [PreprocessCall scale imageData, OCRCall (NewTesseractOCR lang) processed]
         ocrText duration [] pn mn = (log, invoice, d1, d2, er)"
      by simp
    from afterImage_shape [OF a] pre Inr td s
    show ?thesis by auto
  qed
qed

lemma processInvoice_outcome:
  assumes "language = NewTesseractOCR lang" and "scale = (Engine (OCR cfg) = ''easyocr'')"
  shows "\<exists>log invoice d1 d2 er.
     processInvoice e cfg clk imageData useVisionModel aiProvider mn lang = (log, invoice, d1, d2, er)
     \<and> (\<forall>err. PreprocessImageFromBytes e scale imageData = Inl err \<longrightarrow>
           \<not> er = None \<and> er = Some (Wrap ''image preprocessing failed'' err))
     \<and> (\<forall>processed err.
           PreprocessImageFromBytes e scale imageData = Inr processed \<and> \<not> useVisionModel
           \<and> ExtractText e language processed = Inl err \<longrightarrow>
           \<not> er = None \<and> er = Some (Wrap ''OCR failed'' err))
     \<and> (\<forall>processed ocrText imageBase64.
           PreprocessImageFromBytes e scale imageData = Inr processed
           \<and> (if useVisionModel
               then ocrText = [] \<and> imageBase64 = ''data:image/jpeg;base64,'' @ EncodeToString processed
               else (\<exists>duration. ExtractText e language processed = Inr (ocrText, duration))
                    \<and> imageBase64 = []) \<longrightarrow>
           (\<forall>err. createProvider cfg aiProvider mn = Inl err \<longrightarrow>
              \<not> er = None \<and> er = Some err)
           \<and> (\<forall>provider err.
                 createProvider cfg aiProvider mn = Inr provider
                 \<and> ExtractData e provider (buildPrompt (CategoryList cfg) (promptYear clk) ocrText)
                      imageBase64 = Inl err \<longrightarrow>
                 \<not> er = None
                 \<and> er = Some (Wrap ''AI extraction failed'' (Wrap ''AI extraction failed'' err)))
           \<and> (\<forall>provider response err.
                 createProvider cfg aiProvider mn = Inr provider
                 \<and> ExtractData e provider (buildPrompt (CategoryList cfg) (promptYear clk) ocrText)
                      imageBase64 = Inr response
                 \<and> parseResponse (parseTime clk) response ocrText = Inl err \<longrightarrow>
                 \<not> er = None
                 \<and> er = Some (Wrap ''AI extraction failed''
                                      (Wrap ''failed to parse AI response'' err))))"
proof (cases "PreprocessImageFromBytes e scale imageData")
  case (Inl err)
  then show ?thesis
    using processInvoice_preprocess_fails [of e cfg imageData err] assms by simp
next
  case pre: (Inr processed)
  show ?thesis
  proof (cases useVisionModel)
    case True
    obtain log invoice d1 d2 er where
      a: "afterImage e cfg clk [PreprocessCall scale imageData] [] zeroFloat
            (''data:image/jpeg;base64,'' @ EncodeToString processed) aiProvider mn
          = (log, invoice, d1, d2, er)"
      by (metis prod_cases5)
    have p: "processInvoice e cfg clk imageData useVisionModel aiProvider mn lang = (log, invoice, d1, d2, er)"
      using processInvoice_vision [of e cfg imageData processed] pre True assms a by simp
    show ?thesis
      using afterImage_outcome [of e cfg clk "[PreprocessCall scale imageData]" "[]" zeroFloat
          "''data:image/jpeg;base64,'' @ EncodeToString processed" aiProvider mn]
      unfolding a p using pre True by auto
  next
    case False
    show ?thesis
    proof (cases "ExtractText e language processed")
      case (Inl err)
      then show ?thesis
        using processInvoice_ocr_fails [of e cfg imageData processed lang err] pre False assms
        by simp
    next
      case (Inr td)
      obtain ocrText duration where td: "td = (ocrText, duration)" by (cases td)
      obtain log invoice d1 d2 er where
        a: "afterImage e cfg clk [PreprocessCall scale imageData, OCRCall language processed]
              ocrText duration [] aiProvider mn
            = (log, invoice, d1, d2, er)"
        by (metis prod_cases5)
      have p: "processInvoice e cfg clk imageData useVisionModel aiProvider mn lang = (log, invoice, d1, d2, er)"
        using processInvoice_ocr [of e cfg imageData processed lang ocrText duration] pre False assms a Inr td
        by simp
      show ?thesis
        using afterImage_outcome [of e cfg clk "[PreprocessCall scale imageData, OCRCall language processed]"
            ocrText duration "[]" aiProvider mn]
        unfolding a p using pre False Inr td by auto
    qed
  qed
qed

lemma accepted_upload_response:
  assumes "ParseMultipartForm r"
    and "filePart r = FileBytes imageData"
    and "useVisionModel = (FormValue r ''useVisionModel'' = ''true'')"
    and "aiProvider = (if FormValue r ''aiProvider'' = [] then DefaultProvider (AI cfg)
                    else FormValue r ''aiProvider'')"
    and "language = NewTesseractOCR (if FormValue r ''language'' = [] then Language (OCR cfg)
                                   else FormValue r ''language'')"
    and "scale = (Engine (OCR cfg) = ''easyocr'')"
  shows "\<exists>log pr.
       ProcessInvoice e cfg clk r = (log, \<lparr>StatusCode = 200, Body = ProcessBody pr\<rparr>)
       \<and> Success pr = (Error pr = None)
       \<and> (\<forall>err. PreprocessImageFromBytes e scale imageData = Inl err \<longrightarrow>
             \<not> Success pr \<and> Error pr = Some (Wrap ''image preprocessing failed'' err))
       \<and> (\<forall>processed err.
             PreprocessImageFromBytes e scale imageData = Inr processed \<and> \<not> useVisionModel
             \<and> ExtractText e language processed = Inl err \<longrightarrow>
             \<not> Success pr \<and> Error pr = Some (Wrap ''OCR failed'' err))
       \<and> (\<forall>processed ocrText imageBase64.
             PreprocessImageFromBytes e scale imageData = Inr processed
             \<and> (if useVisionModel
                 then ocrText = [] \<and> imageBase64 = ''data:image/jpeg;base64,'' @ EncodeToString processed
                 else (\<exists>duration. ExtractText e language processed = Inr (ocrText, duration))
                      \<and> imageBase64 = []) \<longrightarrow>
             (\<forall>err. createProvider cfg aiProvider (FormValue r ''model'') = Inl err \<longrightarrow>
                \<not> Success pr \<and> Error pr = Some err)
             \<and> (\<forall>provider err.
                   createProvider cfg aiProvider (FormValue r ''model'') = Inr provider
                   \<and> ExtractData e provider (buildPrompt (CategoryList cfg) (promptYear clk) ocrText)
                        imageBase64 = Inl err \<longrightarrow>
                   \<not> Success pr
                   \<and> Error pr = Some (Wrap ''AI extraction failed'' (Wrap ''AI extraction failed'' err)))
             \<and> (\<forall>provider response err.
                   createProvider cfg aiProvider (FormValue r ''model'') = Inr provider
                   \<and> ExtractData e provider (buildPrompt (CategoryList cfg) (promptYear clk) ocrText)
                        imageBase64 = Inr response
                   \<and> parseResponse (parseTime clk) response ocrText = Inl err \<longrightarrow>
                   \<not> Success pr
                   \<and> Error pr = Some (Wrap ''AI extraction failed''
                                        (Wrap ''failed to parse AI response'' err))))"
proof -
  define lang where "lang = (if FormValue r ''language'' = [] then Language (OCR cfg)
                             else FormValue r ''language'')"
  have l: "language = NewTesseractOCR lang" using assms(5) by (simp add: lang_def)
  obtain log invoice d1 d2 er where
    p: "processInvoice e cfg clk imageData useVisionModel aiProvider (FormValue r ''model'') lang
          = (log, invoice, d1, d2, er)"
    by (metis prod_cases5)
  have h: "ProcessInvoice e cfg clk r =
     (log, \<lparr>StatusCode = 200,
            Body = ProcessBody
              \<lparr>Success = (er = None), InvoiceField = (if er = None then invoice else None),
               Error = er, OCRDuration = (if er = None then d1 else zeroFloat),
               AIDuration = (if er = None then d2 else zeroFloat),
               TotalDuration = totalSeconds clk\<rparr>\<rparr>)"
    using ProcessInvoice_accepted [OF assms(1) assms(2), where e = e and cfg = cfg and clk = clk] p
    unfolding assms(3) assms(4) lang_def by simp
  show ?thesis
    using processInvoice_outcome [OF l assms(6), where e = e and clk = clk and imageData = imageData
        and useVisionModel = useVisionModel and aiProvider = aiProvider
        and mn = "FormValue r ''model''"]
    unfolding p h
    by (intro exI [of _ log] exI [of _ "\<lparr>Success = (er = None),
          InvoiceField = (if er = None then invoice else None),
          Error = er, OCRDuration = (if er = None then d1 else zeroFloat),
          AIDuration = (if er = None then d2 else zeroFloat),
          TotalDuration = totalSeconds clk\<rparr>"]) (simp split del: if_split, blast)
qed

lemma status_400_only_for_upload:
  assumes "StatusCode (snd (ProcessInvoice e cfg clk r)) = 400"
  shows "(\<not> ParseMultipartForm r \<or> filePart r = NoFile) \<and> fst (ProcessInvoice e cfg clk r) = []"
proof (cases "ParseMultipartForm r")
  case False
  then show ?thesis by (simp add: ProcessInvoice_def)
next
  case True
  show ?thesis
  proof (cases "filePart r")
    case NoFile
    then show ?thesis using True by (simp add: ProcessInvoice_def)
  next
    case Unreadable
    then show ?thesis using True assms by (simp add: ProcessInvoice_def sendError_def)
  next
    case (FileBytes img)
    obtain log invoice d1 d2 er where
      "processInvoice e cfg clk img (FormValue r ''useVisionModel'' = ''true'')
           (if FormValue r ''aiProvider'' = [] then DefaultProvider (AI cfg) else FormValue r ''aiProvider'')
           (FormValue r ''model'')
           (if FormValue r ''language'' = [] then Language (OCR cfg) else FormValue r ''language'')
         = (log, invoice, d1, d2, er)"
      by (metis prod_cases5)
    from ProcessInvoice_accepted [OF True FileBytes this] assms show ?thesis by simp
  qed
qed

text \<open>
  Claim C1, as amended. For a provider name other than \<^verbatim>\<open>openai\<close>, \<^verbatim>\<open>gemini\<close> and
  \<^verbatim>\<open>ollama\<close> the pipeline fails and no provider is ever called; but the provider is
  created only in step 3, so the image preprocessor is always called first, and the text
  recognizer too on the OCR path. When the image work succeeds, the failure is the
  configuration error \<^verbatim>\<open>unsupported AI provider: <name>\<close>.
\<close>

theorem unsupported_provider_fails_after_image_work:
  assumes "providerName \<noteq> ''openai''" "providerName \<noteq> ''gemini''" "providerName \<noteq> ''ollama''"
  shows "\<exists>log ocrDuration err.
     processInvoice e cfg clk imageData useVisionModel providerName modelName language
       = (log, None, ocrDuration, zeroFloat, Some err)
     \<and> log \<noteq> []
     \<and> hd log = PreprocessCall (Engine (OCR cfg) = ''easyocr'') imageData
     \<and> (\<forall>p prompt image. ProviderCall p prompt imageBase64 \<notin> set log)
     \<and> (\<forall>processed.
           PreprocessImageFromBytes e (Engine (OCR cfg) = ''easyocr'') imageData = Inr processed \<longrightarrow>
             (useVisionModel \<longrightarrow>
                log = [PreprocessCall (Engine (OCR cfg) = ''easyocr'') imageData]
                \<and> err = ErrMsg (''unsupported AI provider: '' @ providerName))
           \<and> (\<not> useVisionModel \<longrightarrow>
                log = [PreprocessCall (Engine (OCR cfg) = ''easyocr'') imageData,
                       OCRCall (NewTesseractOCR language) processed]
                \<and> (\<forall>ocrText duration.
                      ExtractText e (NewTesseractOCR language) processed = Inr (ocrText, duration) \<longrightarrow>
                        err = ErrMsg (''unsupported AI provider: '' @ providerName))))"
  unfolding processInvoice_def Let_def createProvider_unsupported [OF assms]
  by (auto split: sum.splits prod.splits)

theorem unsupported_provider_fails_after_image_work_witness:
  "\<exists>ocrDuration.
     processInvoice stubEnv stubConfig stubClock stubImage True ''unsupported-xyz'' [] ''eng''
       = ([PreprocessCall False stubImage], None, ocrDuration, zeroFloat,
          Some (ErrMsg ''unsupported AI provider: unsupported-xyz''))"
  using unsupported_provider_fails_after_image_work
    [of "''unsupported-xyz''" stubEnv stubConfig stubClock stubImage True "[]" "''eng''"]
  by (auto simp: stubEnv_def stubConfig_def)

text \<open>
  The claim as first stated fails: with collaborators that succeed and the provider
  name \<^verbatim>\<open>unsupported-xyz\<close>, the preprocessor and the recognizer are both called.
\<close>

theorem unsupported_provider_counterexample:
  "fst (processInvoice stubEnv stubConfig stubClock stubImage False ''unsupported-xyz'' [] ''eng'')
     = [PreprocessCall False stubImage, OCRCall ''eng'' stubImage]
   \<and> fst (ProcessInvoice stubEnv stubConfig stubClock (stubRequest ''false'' ''unsupported-xyz''))
     = [PreprocessCall False stubImage, OCRCall ''eng'' stubImage]"
  by (simp add: ProcessInvoice_def processInvoice_def createProvider_def stubEnv_def stubConfig_def
        stubRequest_def ParseMultipartForm_def MaxUploadSize_def NewTesseractOCR_def)

text \<open>
  Claim C7. When the upload is accepted (the form parses and has a readable file), the
  response has status 200 and a body whose \<open>Success\<close> field tells whether an error is
  reported; a failure of preprocessing, of recognition, of provider creation, of the
  provider call or of parsing the answer is reported there with \<open>Success = False\<close> and
  the wrapped error. Status 400 is sent only when the form does not parse or has no
  file, and then no collaborator has been called.
\<close>

theorem processing_failures_in_200_body:
  "(ParseMultipartForm r
      \<and> filePart r = FileBytes imageData
      \<and> useVisionModel = (FormValue r ''useVisionModel'' = ''true'')
      \<and> aiProvider = (if FormValue r ''aiProvider'' = [] then DefaultProvider (AI cfg)
                    else FormValue r ''aiProvider'')
      \<and> language = NewTesseractOCR (if FormValue r ''language'' = [] then Language (OCR cfg)
                                   else FormValue r ''language'')
      \<and> scale = (Engine (OCR cfg) = ''easyocr'')
    \<longrightarrow>
    (\<exists>log pr.
       ProcessInvoice e cfg clk r = (log, \<lparr>StatusCode = 200, Body = ProcessBody pr\<rparr>)
       \<and> Success pr = (Error pr = None)
       \<and> (\<forall>err. PreprocessImageFromBytes e scale imageData = Inl err \<longrightarrow>
             \<not> Success pr \<and> Error pr = Some (Wrap ''image preprocessing failed'' err))
       \<and> (\<forall>processed err.
             PreprocessImageFromBytes e scale imageData = Inr processed \<and> \<not> useVisionModel
             \<and> ExtractText e language processed = Inl err \<longrightarrow>
             \<not> Success pr \<and> Error pr = Some (Wrap ''OCR failed'' err))
       \<and> (\<forall>processed ocrText imageBase64.
             PreprocessImageFromBytes e scale imageData = Inr processed
             \<and> (if useVisionModel
                 then ocrText = [] \<and> imageBase64 = ''data:image/jpeg;base64,'' @ EncodeToString processed
                 else (\<exists>duration. ExtractText e language processed = Inr (ocrText, duration))
                      \<and> imageBase64 = []) \<longrightarrow>
             (\<forall>err. createProvider cfg aiProvider (FormValue r ''model'') = Inl err \<longrightarrow>
                \<not> Success pr \<and> Error pr = Some err)
             \<and> (\<forall>provider err.
                   createProvider cfg aiProvider (FormValue r ''model'') = Inr provider
                   \<and> ExtractData e provider (buildPrompt (CategoryList cfg) (promptYear clk) ocrText)
                        imageBase64 = Inl err \<longrightarrow>
                   \<not> Success pr
                   \<and> Error pr = Some (Wrap ''AI extraction failed'' (Wrap ''AI extraction failed'' err)))
             \<and> (\<forall>provider response err.
                   createProvider cfg aiProvider (FormValue r ''model'') = Inr provider
                   \<and> ExtractData e provider (buildPrompt (CategoryList cfg) (promptYear clk) ocrText)
                        imageBase64 = Inr response
                   \<and> parseResponse (parseTime clk) response ocrText = Inl err \<longrightarrow>
                   \<not> Success pr
                   \<and> Error pr = Some (Wrap ''AI extraction failed''
                                        (Wrap ''failed to parse AI response'' err))))))
   \<and> (StatusCode (snd (ProcessInvoice e cfg clk r)) = 400 \<longrightarrow>
        (\<not> ParseMultipartForm r \<or> filePart r = NoFile) \<and> fst (ProcessInvoice e cfg clk r) = [])"
proof (rule conjI)
  show "ParseMultipartForm r
      \<and> filePart r = FileBytes imageData
      \<and> useVisionModel = (FormValue r ''useVisionModel'' = ''true'')
      \<and> aiProvider = (if FormValue r ''aiProvider'' = [] then DefaultProvider (AI cfg)
                    else FormValue r ''aiProvider'')
      \<and> language = NewTesseractOCR (if FormValue r ''language'' = [] then Language (OCR cfg)
                                   else FormValue r ''language'')
      \<and> scale = (Engine (OCR cfg) = ''easyocr'')
    \<longrightarrow>
    (\<exists>log pr.
       ProcessInvoice e cfg clk r = (log, \<lparr>StatusCode = 200, Body = ProcessBody pr\<rparr>)
       \<and> Success pr = (Error pr = None)
       \<and> (\<forall>err. PreprocessImageFromBytes e scale imageData = Inl err \<longrightarrow>
             \<not> Success pr \<and> Error pr = Some (Wrap ''image preprocessing failed'' err))
       \<and> (\<forall>processed err.
             PreprocessImageFromBytes e scale imageData = Inr processed \<and> \<not> useVisionModel
             \<and> ExtractText e language processed = Inl err \<longrightarrow>
             \<not> Success pr \<and> Error pr = Some (Wrap ''OCR failed'' err))
       \<and> (\<forall>processed ocrText imageBase64.
             PreprocessImageFromBytes e scale imageData = Inr processed
             \<and> (if useVisionModel
                 then ocrText = [] \<and> imageBase64 = ''data:image/jpeg;base64,'' @ EncodeToString processed
                 else (\<exists>duration. ExtractText e language processed = Inr (ocrText, duration))
                      \<and> imageBase64 = []) \<longrightarrow>
             (\<forall>err. createProvider cfg aiProvider (FormValue r ''model'') = Inl err \<longrightarrow>
                \<not> Success pr \<and> Error pr = Some err)
             \<and> (\<forall>provider err.
                   createProvider cfg aiProvider (FormValue r ''model'') = Inr provider
                   \<and> ExtractData e provider (buildPrompt (CategoryList cfg) (promptYear clk) ocrText)
                        imageBase64 = Inl err \<longrightarrow>
                   \<not> Success pr
                   \<and> Error pr = Some (Wrap ''AI extraction failed'' (Wrap ''AI extraction failed'' err)))
             \<and> (\<forall>provider response err.
                   createProvider cfg aiProvider (FormValue r ''model'') = Inr provider
                   \<and> ExtractData e provider (buildPrompt (CategoryList cfg) (promptYear clk) ocrText)
                        imageBase64 = Inr response
                   \<and> parseResponse (parseTime clk) response ocrText = Inl err \<longrightarrow>
                   \<not> Success pr
                   \<and> Error pr = Some (Wrap ''AI extraction failed''
                                        (Wrap ''failed to parse AI response'' err)))))"
    by (rule impI, (erule conjE)+, rule accepted_upload_response; assumption)
  show "StatusCode (snd (ProcessInvoice e cfg clk r)) = 400 \<longrightarrow>
        (\<not> ParseMultipartForm r \<or> filePart r = NoFile) \<and> fst (ProcessInvoice e cfg clk r) = []"
    by (rule impI, rule status_400_only_for_upload)
qed

theorem processing_failures_in_200_body_witness:
  "(\<exists>log pr.
      ProcessInvoice noImageEnv stubConfig stubClock (stubRequest ''false'' ''openai'')
        = (log, \<lparr>StatusCode = 200, Body = ProcessBody pr\<rparr>)
      \<and> \<not> Success pr
      \<and> Error pr = Some (Wrap ''image preprocessing failed'' (ErrMsg ''failed to read image'')))
   \<and> StatusCode (snd (ProcessInvoice stubEnv stubConfig stubClock oversizedRequest)) = 400
   \<and> fst (ProcessInvoice stubEnv stubConfig stubClock oversizedRequest) = []"
proof -
  have 1: "ParseMultipartForm (stubRequest ''false'' ''openai'')
     \<and> filePart (stubRequest ''false'' ''openai'') = FileBytes stubImage
     \<and> False = (FormValue (stubRequest ''false'' ''openai'') ''useVisionModel'' = ''true'')
     \<and> ''openai'' = (if FormValue (stubRequest ''false'' ''openai'') ''aiProvider'' = []
                     then DefaultProvider (AI stubConfig)
                     else FormValue (stubRequest ''false'' ''openai'') ''aiProvider'')
     \<and> ''eng'' = NewTesseractOCR (if FormValue (stubRequest ''false'' ''openai'') ''language'' = []
                                   then Language (OCR stubConfig)
                                   else FormValue (stubRequest ''false'' ''openai'') ''language'')
     \<and> False = (Engine (OCR stubConfig) = ''easyocr'')"
    by (simp add: stubEnv_def noImageEnv_def stubConfig_def stubClock_def stubRequest_def oversizedRequest_def
        ParseMultipartForm_def MaxUploadSize_def NewTesseractOCR_def)
  have 2: "PreprocessImageFromBytes noImageEnv False stubImage = Inl (ErrMsg ''failed to read image'')"
    by (simp add: noImageEnv_def)
  have 3: "StatusCode (snd (ProcessInvoice stubEnv stubConfig stubClock oversizedRequest)) = 400"
    by (simp add: ProcessInvoice_def sendError_def stubEnv_def noImageEnv_def stubConfig_def stubClock_def stubRequest_def oversizedRequest_def
        ParseMultipartForm_def MaxUploadSize_def NewTesseractOCR_def)
  from processing_failures_in_200_body
    [where r = "stubRequest ''false'' ''openai''" and imageData = stubImage and useVisionModel = False
       and aiProvider = "''openai''" and language = "''eng''" and scale = False and cfg = stubConfig
       and e = noImageEnv and clk = stubClock] 1 2
  have a: "\<exists>log pr.
      ProcessInvoice noImageEnv stubConfig stubClock (stubRequest ''false'' ''openai'')
        = (log, \<lparr>StatusCode = 200, Body = ProcessBody pr\<rparr>)
      \<and> \<not> Success pr
      \<and> Error pr = Some (Wrap ''image preprocessing failed'' (ErrMsg ''failed to read image''))"
    by blast
  from processing_failures_in_200_body
    [where r = oversizedRequest and e = stubEnv and cfg = stubConfig and clk = stubClock] 3
  have b: "fst (ProcessInvoice stubEnv stubConfig stubClock oversizedRequest) = []"
    by blast
  from a b 3 show ?thesis by blast
qed

text \<open>
  Claim C8. With \<^verbatim>\<open>useVisionModel=true\<close> the text recognizer is never called; every
  provider call carries the preprocessed image, base64-encoded behind the prefix
  \<^verbatim>\<open>data:image/jpeg;base64,\<close> (and such a call is made whenever preprocessing succeeds and
  the provider exists); and the \<open>RawText\<close> of a returned invoice is empty.
\<close>

theorem vision_bypass_skips_recognizer:
  "ParseMultipartForm r \<and> filePart r = FileBytes imageData
     \<and> FormValue r ''useVisionModel'' = ''true''
     \<and> aiProvider = (if FormValue r ''aiProvider'' = [] then DefaultProvider (AI cfg)
                      else FormValue r ''aiProvider'')
     \<and> scale = (Engine (OCR cfg) = ''easyocr'')
   \<longrightarrow>
   (\<exists>log resp.
      ProcessInvoice e cfg clk r = (log, resp)
      \<and> (\<forall>lang img. OCRCall lang img \<notin> set log)
      \<and> (\<forall>p prompt imageBase64. ProviderCall p prompt imageBase64 \<in> set log \<longrightarrow>
            (\<exists>processed. PreprocessImageFromBytes e scale imageData = Inr processed
               \<and> imageBase64 = ''data:image/jpeg;base64,'' @ EncodeToString processed))
      \<and> (\<forall>processed p.
            PreprocessImageFromBytes e scale imageData = Inr processed
            \<and> createProvider cfg aiProvider (FormValue r ''model'') = Inr p \<longrightarrow>
            ProviderCall p (buildPrompt (CategoryList cfg) (promptYear clk) [])
              (''data:image/jpeg;base64,'' @ EncodeToString processed) \<in> set log)
      \<and> (\<forall>pr invoice. Body resp = ProcessBody pr \<and> InvoiceField pr = Some invoice \<longrightarrow>
            RawText invoice = []))"
proof (rule impI, (erule conjE)+)
  assume a: "ParseMultipartForm r" "filePart r = FileBytes imageData"
    and v: "FormValue r ''useVisionModel'' = ''true''"
    and pn: "aiProvider = (if FormValue r ''aiProvider'' = [] then DefaultProvider (AI cfg)
                      else FormValue r ''aiProvider'')"
    and s: "scale = (Engine (OCR cfg) = ''easyocr'')"
  define lang where "lang = (if FormValue r ''language'' = [] then Language (OCR cfg)
                             else FormValue r ''language'')"
  obtain log invoice d1 d2 er where
    p: "processInvoice e cfg clk imageData True aiProvider (FormValue r ''model'') lang
          = (log, invoice, d1, d2, er)"
    by (metis prod_cases5)
  have h: "ProcessInvoice e cfg clk r =
     (log, \<lparr>StatusCode = 200,
            Body = ProcessBody
              \<lparr>Success = (er = None), InvoiceField = (if er = None then invoice else None),
               Error = er, OCRDuration = (if er = None then d1 else zeroFloat),
               AIDuration = (if er = None then d2 else zeroFloat),
               TotalDuration = totalSeconds clk\<rparr>\<rparr>)"
    using ProcessInvoice_accepted [OF a, where e = e and cfg = cfg and clk = clk] p
    unfolding v pn lang_def by simp
  from processInvoice_vision_facts [OF p s]
  show "\<exists>log resp.
      ProcessInvoice e cfg clk r = (log, resp)
      \<and> (\<forall>lang img. OCRCall lang img \<notin> set log)
      \<and> (\<forall>p prompt imageBase64. ProviderCall p prompt imageBase64 \<in> set log \<longrightarrow>
            (\<exists>processed. PreprocessImageFromBytes e scale imageData = Inr processed
               \<and> imageBase64 = ''data:image/jpeg;base64,'' @ EncodeToString processed))
      \<and> (\<forall>processed p.
            PreprocessImageFromBytes e scale imageData = Inr processed
            \<and> createProvider cfg aiProvider (FormValue r ''model'') = Inr p \<longrightarrow>
            ProviderCall p (buildPrompt (CategoryList cfg) (promptYear clk) [])
              (''data:image/jpeg;base64,'' @ EncodeToString processed) \<in> set log)
      \<and> (\<forall>pr invoice. Body resp = ProcessBody pr \<and> InvoiceField pr = Some invoice \<longrightarrow>
            RawText invoice = [])"
    unfolding h by (auto split: if_splits)
qed

theorem vision_bypass_skips_recognizer_witness:
  "\<exists>log resp.
      ProcessInvoice stubEnv stubConfig stubClock (stubRequest ''true'' ''openai'') = (log, resp)
      \<and> (\<forall>lang img. OCRCall lang img \<notin> set log)
      \<and> ProviderCall (OpenAIProvider ''k'' [] ''gpt-4'') (buildPrompt [''Food''] 2024 [])
           (''data:image/jpeg;base64,'' @ EncodeToString stubImage) \<in> set log
      \<and> (\<forall>pr invoice. Body resp = ProcessBody pr \<and> InvoiceField pr = Some invoice \<longrightarrow>
            RawText invoice = [])"
proof -
  have 1: "ParseMultipartForm (stubRequest ''true'' ''openai'')
     \<and> filePart (stubRequest ''true'' ''openai'') = FileBytes stubImage
     \<and> FormValue (stubRequest ''true'' ''openai'') ''useVisionModel'' = ''true''
     \<and> ''openai'' = (if FormValue (stubRequest ''true'' ''openai'') ''aiProvider'' = []
                     then DefaultProvider (AI stubConfig)
                     else FormValue (stubRequest ''true'' ''openai'') ''aiProvider'')
     \<and> False = (Engine (OCR stubConfig) = ''easyocr'')"
    by (simp add: stubEnv_def noImageEnv_def stubConfig_def stubClock_def stubRequest_def oversizedRequest_def
        ParseMultipartForm_def MaxUploadSize_def NewTesseractOCR_def)
  have 2: "PreprocessImageFromBytes stubEnv False stubImage = Inr stubImage"
    by (simp add: stubEnv_def)
  have 3: "createProvider stubConfig ''openai'' (FormValue (stubRequest ''true'' ''openai'') ''model'')
      = Inr (OpenAIProvider ''k'' [] ''gpt-4'')"
    by (simp add: createProvider_def NewOpenAIProvider_def stubConfig_def stubRequest_def)
  have 4: "CategoryList stubConfig = [''Food'']" "promptYear stubClock = 2024"
    by (simp_all add: stubConfig_def stubClock_def)
  from vision_bypass_skips_recognizer
    [where r = "stubRequest ''true'' ''openai''" and imageData = stubImage
       and aiProvider = "''openai''" and scale = False and cfg = stubConfig
       and e = stubEnv and clk = stubClock] 1
  obtain log resp where
    "ProcessInvoice stubEnv stubConfig stubClock (stubRequest ''true'' ''openai'') = (log, resp)"
    "\<forall>lang img. OCRCall lang img \<notin> set log"
    "\<forall>processed p.
            PreprocessImageFromBytes stubEnv False stubImage = Inr processed
            \<and> createProvider stubConfig ''openai'' (FormValue (stubRequest ''true'' ''openai'') ''model'') = Inr p \<longrightarrow>
            ProviderCall p (buildPrompt (CategoryList stubConfig) (promptYear stubClock) [])
              (''data:image/jpeg;base64,'' @ EncodeToString processed) \<in> set log"
    "\<forall>pr invoice. Body resp = ProcessBody pr \<and> InvoiceField pr = Some invoice \<longrightarrow>
            RawText invoice = []"
    by blast
  with 2 3 4 show ?thesis by metis
qed

text \<open>
  Claim C10. A form value of \<^verbatim>\<open>useVisionModel\<close> other than the exact string \<^verbatim>\<open>true\<close>
  selects the OCR path: the request is handled exactly as with the value \<^verbatim>\<open>false\<close>, the
  recognizer is called whenever preprocessing succeeds, and a provider call carries the
  recognized text and no image.
\<close>

theorem vision_flag_is_exactly_true:
  "ParseMultipartForm r \<and> filePart r = FileBytes imageData
     \<and> FormValue r ''useVisionModel'' \<noteq> ''true''
     \<and> language = NewTesseractOCR (if FormValue r ''language'' = [] then Language (OCR cfg)
                                     else FormValue r ''language'')
     \<and> scale = (Engine (OCR cfg) = ''easyocr'')
   \<longrightarrow>
   (\<exists>log resp.
      ProcessInvoice e cfg clk r = (log, resp)
      \<and> ProcessInvoice e cfg clk (r\<lparr>FormValue := (FormValue r)(''useVisionModel'' := ''false'')\<rparr>)
          = (log, resp)
      \<and> (\<forall>processed. PreprocessImageFromBytes e scale imageData = Inr processed \<longrightarrow>
            OCRCall language processed \<in> set log)
      \<and> (\<forall>p prompt imageBase64. ProviderCall p prompt imageBase64 \<in> set log \<longrightarrow>
            imageBase64 = []
            \<and> (\<exists>processed ocrText duration.
                  PreprocessImageFromBytes e scale imageData = Inr processed
                  \<and> ExtractText e language processed = Inr (ocrText, duration)
                  \<and> prompt = buildPrompt (CategoryList cfg) (promptYear clk) ocrText)))"
proof (rule impI, (erule conjE)+)
  assume a: "ParseMultipartForm r" "filePart r = FileBytes imageData"
    and v: "FormValue r ''useVisionModel'' \<noteq> ''true''"
    and l: "language = NewTesseractOCR (if FormValue r ''language'' = [] then Language (OCR cfg)
                                     else FormValue r ''language'')"
    and s: "scale = (Engine (OCR cfg) = ''easyocr'')"
  define lang where "lang = (if FormValue r ''language'' = [] then Language (OCR cfg)
                             else FormValue r ''language'')"
  define pn where "pn = (if FormValue r ''aiProvider'' = [] then DefaultProvider (AI cfg)
                         else FormValue r ''aiProvider'')"
  obtain log invoice d1 d2 er where
    p: "processInvoice e cfg clk imageData False pn (FormValue r ''model'') lang
          = (log, invoice, d1, d2, er)"
    by (metis prod_cases5)
  have h: "ProcessInvoice e cfg clk r =
     (log, \<lparr>StatusCode = 200,
            Body = ProcessBody
              \<lparr>Success = (er = None), InvoiceField = (if er = None then invoice else None),
               Error = er, OCRDuration = (if er = None then d1 else zeroFloat),
               AIDuration = (if er = None then d2 else zeroFloat),
               TotalDuration = totalSeconds clk\<rparr>\<rparr>)"
    using ProcessInvoice_accepted [OF a, where e = e and cfg = cfg and clk = clk] p v
    unfolding pn_def lang_def by simp
  have h': "ProcessInvoice e cfg clk (r\<lparr>FormValue := (FormValue r)(''useVisionModel'' := ''false'')\<rparr>)
      = ProcessInvoice e cfg clk r"
    using a v by (simp add: ProcessInvoice_def ParseMultipartForm_def)
  from processInvoice_ocr_facts [OF p s]
  show "\<exists>log resp.
      ProcessInvoice e cfg clk r = (log, resp)
      \<and> ProcessInvoice e cfg clk (r\<lparr>FormValue := (FormValue r)(''useVisionModel'' := ''false'')\<rparr>)
          = (log, resp)
      \<and> (\<forall>processed. PreprocessImageFromBytes e scale imageData = Inr processed \<longrightarrow>
            OCRCall language processed \<in> set log)
      \<and> (\<forall>p prompt imageBase64. ProviderCall p prompt imageBase64 \<in> set log \<longrightarrow>
            imageBase64 = []
            \<and> (\<exists>processed ocrText duration.
                  PreprocessImageFromBytes e scale imageData = Inr processed
                  \<and> ExtractText e language processed = Inr (ocrText, duration)
                  \<and> prompt = buildPrompt (CategoryList cfg) (promptYear clk) ocrText))"
    unfolding h' h l lang_def [symmetric] by simp
qed

theorem vision_flag_is_exactly_true_witness:
  "(\<exists>log resp.
      ProcessInvoice stubEnv stubConfig stubClock (stubRequest ''True'' ''openai'') = (log, resp)
      \<and> OCRCall ''eng'' stubImage \<in> set log
      \<and> (\<forall>p prompt imageBase64. ProviderCall p prompt imageBase64 \<in> set log \<longrightarrow> imageBase64 = []))
   \<and> (\<exists>log resp.
      ProcessInvoice stubEnv stubConfig stubClock (stubRequest ''TRUE'' ''openai'') = (log, resp)
      \<and> OCRCall ''eng'' stubImage \<in> set log)
   \<and> (\<exists>log resp.
      ProcessInvoice stubEnv stubConfig stubClock (stubRequest ''1'' ''openai'') = (log, resp)
      \<and> OCRCall ''eng'' stubImage \<in> set log)"
proof -
  have 1: "\<And>v. v \<noteq> ''true'' \<Longrightarrow>
     ParseMultipartForm (stubRequest v ''openai'')
     \<and> filePart (stubRequest v ''openai'') = FileBytes stubImage
     \<and> FormValue (stubRequest v ''openai'') ''useVisionModel'' \<noteq> ''true''
     \<and> ''eng'' = NewTesseractOCR (if FormValue (stubRequest v ''openai'') ''language'' = []
                                   then Language (OCR stubConfig)
                                   else FormValue (stubRequest v ''openai'') ''language'')
     \<and> False = (Engine (OCR stubConfig) = ''easyocr'')"
    by (simp add: stubEnv_def noImageEnv_def stubConfig_def stubClock_def stubRequest_def oversizedRequest_def
        ParseMultipartForm_def MaxUploadSize_def NewTesseractOCR_def)
  have 2: "PreprocessImageFromBytes stubEnv False stubImage = Inr stubImage"
    by (simp add: stubEnv_def)
  have 3: "\<exists>log resp.
      ProcessInvoice stubEnv stubConfig stubClock (stubRequest v ''openai'') = (log, resp)
      \<and> OCRCall ''eng'' stubImage \<in> set log
      \<and> (\<forall>p prompt imageBase64. ProviderCall p prompt imageBase64 \<in> set log \<longrightarrow> imageBase64 = [])"
    if "v \<noteq> ''true''" for v
    using vision_flag_is_exactly_true
      [where r = "stubRequest v ''openai''" and imageData = stubImage
         and language = "''eng''" and scale = False and cfg = stubConfig
         and e = stubEnv and clk = stubClock] 1 [OF that] 2
    by blast
  have "''True'' \<noteq> ''true''" "''TRUE'' \<noteq> ''true''" "''1'' \<noteq> ''true''" by simp_all
  from this [THEN 3] show ?thesis by blast
qed

subsection \<open>Evaluating the parsers\<close>

lemmas char_eval = ord_def chr_def isDigit_def digitVal_def isExp_def isHex_def isJSONSpace_def
  cont_def RuneStart_def RuneError_def IsSpace_def

lemmas clean_eval = cleanResponse_def ReplaceAll_def HasPrefix_def TrimSpace_def DecodeRune_def
  DecodeLastRune_def

lemmas json_eval = Unmarshal_def parseJSON_def lexStart_def unquote_def maxNestingDepth_def
  decodeStruct_def decodeRawField_def decodeItemField_def decodeSlice_def
  findField_def rawFields_def itemFields_def zeroRaw_def zeroRawItem_def nilSlice_def
  isValidNumber_def ParseInt_def foldName_def toUpper_def saveError_def typeError_def

lemmas time_eval = Parse_def layoutISO_def layoutDMY_def layoutRFC3339_def getnum_def HasPrefix_def
  daysIn_def isLeap_def parseFraction_def parseZone_def

lemmas decimal_eval = NewFromString_def parseAmount_def parseCoefficient_def ParseInt_def
  bigIntSetString_def zeroDecimal_def

subsection \<open>Parsing a provider answer\<close>

lemma parseResponse_ok:
  assumes "Unmarshal (cleanResponse response) = Inr r"
  shows "parseResponse now response ocrText =
     Inr \<lparr>Vendor = vendor r,
          Date = (if date r \<noteq> [] then
                    (case parseDate (date r) of Some t \<Rightarrow> t | None \<Rightarrow> zeroTime)
                  else zeroTime),
          Total = (if total r \<noteq> [] then parseAmount (total r) else zeroDecimal),
          Tax = (if tax r \<noteq> [] then parseAmount (tax r) else zeroDecimal),
          Items = map buildItem (elems (items r)),
          Categories = elems (categories r),
          RawText = ocrText,
          Confidence = FloatLit 85 (- 2),
          ProcessedAt = now\<rparr>"
  using assms by (simp add: parseResponse_def)

lemma parseResponse_error:
  assumes "parseResponse now response ocrText = Inl err"
  shows "\<exists>je. Unmarshal (cleanResponse response) = Inl je
           \<and> err = JSONParseError je (cleanResponse response)"
  using assms by (auto simp: parseResponse_def Let_def split: sum.splits)

lemma acme_trim: "TrimSpace acmeAnswer = acmeAnswer"
  by (simp add: acmeAnswer_def TrimSpace_def DecodeRune_def DecodeLastRune_def char_eval)

lemma acme_clean: "cleanResponse acmeAnswer = acmeAnswer"
  unfolding cleanResponse_def acme_trim
  by (simp add: acmeAnswer_def ReplaceAll_def HasPrefix_def TrimSpace_def DecodeRune_def DecodeLastRune_def char_eval)

lemma acme_lex:
  \<open>lex MValue acmeAnswer =
     Some [TLBrace, TString ''vendor'', TColon, TString ''Acme'', TComma,
           TString ''date'', TColon, TString ''2024-03-01'', TComma,
           TString ''total'', TColon, TString ''12.50'', TComma,
           TString ''tax'', TColon, TString ''1.00'', TComma,
           TString ''items'', TColon, TLBrack, TLBrace,
           TString ''name'', TColon, TString ''Widget'', TComma,
           TString ''amount'', TColon, TString ''12.50'', TComma,
           TString ''isTaxed'', TColon, TTrue, TComma,
           TString ''quantity'', TColon, TNumber ''2'', TRBrace, TRBrack, TComma,
           TString ''categories'', TColon, TLBrack, TString ''Shopping'', TRBrack, TRBrace]\<close>
  by (simp add: acmeAnswer_def lexStart_def char_eval)

lemma acme_json:
  "parseJSON acmeAnswer =
     Some (JObject
       [(''vendor'', JString ''Acme''), (''date'', JString ''2024-03-01''),
        (''total'', JString ''12.50''), (''tax'', JString ''1.00''),
        (''items'', JArray [JObject [(''name'', JString ''Widget''), (''amount'', JString ''12.50''),
                                     (''isTaxed'', JBool True), (''quantity'', JNumber ''2'')]]),
        (''categories'', JArray [JString ''Shopping''])])"
  unfolding parseJSON_def acme_lex
  by (simp add: unquote_def maxNestingDepth_def char_eval)

lemma acme_unmarshal: "Unmarshal acmeAnswer = Inr acmeRaw"
  unfolding Unmarshal_def acme_json
  by (simp add: decodeStruct_def decodeRawField_def decodeItemField_def decodeSlice_def
        findField_def rawFields_def itemFields_def zeroRaw_def zeroRawItem_def nilSlice_def
        isValidNumber_def lexStart_def ParseInt_def acmeRaw_def char_eval)

lemma acme_date:
  "parseDate ''2024-03-01'' =
     Some \<lparr>Year = 2024, Month = 3, Day = 1, Hour = 0, Minute = 0, Second = 0,
           Nanosecond = 0, Loc = UTC\<rparr>"
  by (simp add: parseDate_def time_eval char_eval)

lemma acme_amounts:
  "parseAmount ''12.50'' = \<lparr>coefficient = 1250, exponent = - 2\<rparr>"
  "parseAmount ''1.00'' = \<lparr>coefficient = 100, exponent = - 2\<rparr>"
  by (simp_all add: decimal_eval char_eval)

text \<open>
  Claim C2. The answer \<open>acmeAnswer\<close> parses to an invoice with vendor Acme, date
  2024-03-01, total 1250 * 10 ^ -2 (the decimal 12.50 exactly), tax 100 * 10 ^ -2, one
  line item (Widget, 12.50, taxed, quantity 2) and the category Shopping.
\<close>

theorem acme_round_trip:
  "parseResponse now acmeAnswer ocrText =
     Inr \<lparr>Vendor = ''Acme'',
          Date = \<lparr>Year = 2024, Month = 3, Day = 1, Hour = 0, Minute = 0, Second = 0,
                  Nanosecond = 0, Loc = UTC\<rparr>,
          Total = \<lparr>coefficient = 1250, exponent = - 2\<rparr>,
          Tax = \<lparr>coefficient = 100, exponent = - 2\<rparr>,
          Items = [\<lparr>Name = ''Widget'', Amount = \<lparr>coefficient = 1250, exponent = - 2\<rparr>,
                    IsTaxed = True, Quantity = 2\<rparr>],
          Categories = [''Shopping''],
          RawText = ocrText,
          Confidence = FloatLit 85 (- 2),
          ProcessedAt = now\<rparr>"
  unfolding parseResponse_def acme_clean Let_def acme_unmarshal
  by (simp add: acmeRaw_def buildItem_def acme_date acme_amounts)

theorem acme_round_trip_witness:
  "map_sum id Total (parseResponse zeroTime acmeAnswer []) = Inr \<lparr>coefficient = 1250, exponent = - 2\<rparr>"
  using acme_round_trip [of zeroTime "[]"] by simp

subsection \<open>Dates\<close>

lemma empty_parse: "Parse layoutISO [] = None" "Parse layoutDMY [] = None" "Parse layoutRFC3339 [] = None"
  by (simp_all add: time_eval char_eval)

lemma march_clean: "cleanResponse marchAnswer = marchAnswer"
  by (simp add: marchAnswer_def clean_eval char_eval)

lemma march_unmarshal: "Unmarshal marchAnswer = Inr marchRaw"
  by (simp add: marchAnswer_def marchRaw_def json_eval char_eval)

lemma march_layouts:
  "Parse layoutISO ''March 1st'' = None" "Parse layoutDMY ''March 1st'' = None"
  "Parse layoutRFC3339 ''March 1st'' = None"
  by (simp_all add: time_eval char_eval)

text \<open>
  Claim C5. When the answer decodes, parsing succeeds whatever the date string is. The
  date of the invoice is what the layout YYYY-MM-DD gives; failing that, what DD/MM/YYYY
  gives; failing that, what RFC3339 gives; and the zero time when all three fail. The
  only error of \<open>parseResponse\<close> is a JSON error.
\<close>

theorem date_layouts_tried_in_order:
  "(Unmarshal (cleanResponse response) = Inr r \<longrightarrow>
      (\<exists>invoice.
         parseResponse now response ocrText = Inr invoice
         \<and> (\<forall>t. Parse layoutISO (date r) = Some t \<longrightarrow> Date invoice = t)
         \<and> (\<forall>t. Parse layoutISO (date r) = None \<and> Parse layoutDMY (date r) = Some t \<longrightarrow>
               Date invoice = t)
         \<and> (\<forall>t. Parse layoutISO (date r) = None \<and> Parse layoutDMY (date r) = None
                 \<and> Parse layoutRFC3339 (date r) = Some t \<longrightarrow> Date invoice = t)
         \<and> (Parse layoutISO (date r) = None \<and> Parse layoutDMY (date r) = None
              \<and> Parse layoutRFC3339 (date r) = None \<longrightarrow> Date invoice = zeroTime)))
   \<and> (\<forall>err. parseResponse now response ocrText = Inl err \<longrightarrow>
         (\<exists>je. Unmarshal (cleanResponse response) = Inl je
            \<and> err = JSONParseError je (cleanResponse response)))"
proof (intro conjI impI allI)
  fix err
  assume "parseResponse now response ocrText = Inl err"
  then show "\<exists>je. Unmarshal (cleanResponse response) = Inl je
            \<and> err = JSONParseError je (cleanResponse response)"
    by (rule parseResponse_error)
next
  assume u: "Unmarshal (cleanResponse response) = Inr r"
  show "\<exists>invoice.
         parseResponse now response ocrText = Inr invoice
         \<and> (\<forall>t. Parse layoutISO (date r) = Some t \<longrightarrow> Date invoice = t)
         \<and> (\<forall>t. Parse layoutISO (date r) = None \<and> Parse layoutDMY (date r) = Some t \<longrightarrow>
               Date invoice = t)
         \<and> (\<forall>t. Parse layoutISO (date r) = None \<and> Parse layoutDMY (date r) = None
                 \<and> Parse layoutRFC3339 (date r) = Some t \<longrightarrow> Date invoice = t)
         \<and> (Parse layoutISO (date r) = None \<and> Parse layoutDMY (date r) = None
              \<and> Parse layoutRFC3339 (date r) = None \<longrightarrow> Date invoice = zeroTime)"
  proof (cases "date r = []")
    case True
    then show ?thesis
      unfolding parseResponse_ok [OF u] by (simp add: empty_parse)
  next
    case False
    then show ?thesis
      unfolding parseResponse_ok [OF u] by (simp add: parseDate_def)
  qed
qed

theorem date_layouts_tried_in_order_witness:
  "\<exists>invoice. parseResponse zeroTime marchAnswer [] = Inr invoice \<and> Date invoice = zeroTime"
proof -
  have u: "Unmarshal (cleanResponse marchAnswer) = Inr marchRaw"
    by (simp add: march_clean march_unmarshal)
  have d: "date marchRaw = ''March 1st''" by (simp add: marchRaw_def)
  from date_layouts_tried_in_order [of marchAnswer marchRaw zeroTime "[]"] u
  obtain invoice where i: "parseResponse zeroTime marchAnswer [] = Inr invoice"
    and "Parse layoutISO (date marchRaw) = None \<and> Parse layoutDMY (date marchRaw) = None
              \<and> Parse layoutRFC3339 (date marchRaw) = None \<longrightarrow> Date invoice = zeroTime"
    by blast
  with march_layouts d show ?thesis by simp
qed

subsection \<open>Line items\<close>

lemma decodeElems_length:
  "decodeElems dec zero backing vs sv = Inr (xs, sv') \<Longrightarrow> length xs = length vs"
  by (induction vs arbitrary: backing sv xs sv') (auto split: sum.splits)

lemma decodeElems_nth:
  "decodeElems dec zero [] vs sv = Inr (xs, sv') \<Longrightarrow> i < length vs \<Longrightarrow>
     \<exists>sv1 sv2. dec zero (vs ! i) sv1 = Inr (xs ! i, sv2)"
proof (induction vs arbitrary: sv xs sv' i)
  case Nil
  then show ?case by simp
next
  case (Cons v vs)
  from Cons.prems(1) obtain x sv1 ys where
    x: "dec zero v sv = Inr (x, sv1)" and ys: "decodeElems dec zero [] vs sv1 = Inr (ys, sv')"
    and xs: "xs = x # ys"
    by (auto split: sum.splits)
  show ?case
  proof (cases i)
    case 0
    with x xs show ?thesis by auto
  next
    case (Suc j)
    with Cons.prems(2) have "j < length vs" by simp
    from Cons.IH [OF ys this] Suc xs show ?thesis by simp
  qed
qed

lemma map_sum_id_Inr: "map_sum id f x = Inr y \<Longrightarrow> \<exists>z. x = Inr z \<and> y = f z"
  by (cases x) auto

lemma decodeItemField_quantity:
  assumes "findField itemFields k \<noteq> Some ''quantity''"
    and "decodeItemField cur k v sv = Inr (cur', sv')"
  shows "quantity cur' = quantity cur"
proof (cases "findField itemFields k")
  case None
  with assms show ?thesis by (simp add: decodeItemField_def)
next
  case (Some f)
  have "f \<in> set itemFields"
    using Some by (auto simp: findField_def find_Some_iff split: if_splits)
  with assms Some show ?thesis
    by (auto simp: decodeItemField_def itemFields_def dest!: map_sum_id_Inr)
qed

lemma decodeMembers_quantity:
  assumes "\<forall>(k, v) \<in> set ms. findField itemFields k \<noteq> Some ''quantity''"
    and "decodeMembers decodeItemField cur ms sv = Inr (cur', sv')"
  shows "quantity cur' = quantity cur"
  using assms
proof (induction ms arbitrary: cur sv)
  case Nil
  then show ?case by simp
next
  case (Cons m ms)
  obtain k v where m: "m = (k, v)" by (cases m)
  from Cons.prems(2) m obtain c1 s1 where
    1: "decodeItemField cur k v sv = Inr (c1, s1)"
    and 2: "decodeMembers decodeItemField c1 ms s1 = Inr (cur', sv')"
    by (auto split: sum.splits)
  from Cons.prems(1) m have "findField itemFields k \<noteq> Some ''quantity''" by simp
  from decodeItemField_quantity [OF this 1] Cons.IH [OF _ 2] Cons.prems(1)
  show ?case by simp
qed

lemma items_clean: "cleanResponse itemsAnswer = itemsAnswer"
  by (simp add: itemsAnswer_def clean_eval char_eval)

lemma items_unmarshal: "Unmarshal itemsAnswer = Inr itemsRaw"
  by (simp add: itemsAnswer_def itemsRaw_def json_eval char_eval)

text \<open>
  Claim C9, as amended. The items of the invoice are the decoded items, one for one
  and in the same order, each with the name and the quantity that was decoded; an array
  decoded into an empty slice gives one element per array element, in order, each
  decoded from a zero item; an item object with no quantity key keeps the quantity 0;
  and a quantity key with an integer literal in the 64-bit range sets the quantity to
  that integer, negative or not.
\<close>

theorem items_keep_order_and_quantity:
  "(Unmarshal (cleanResponse response) = Inr r \<longrightarrow>
      (\<exists>invoice.
         parseResponse now response ocrText = Inr invoice
         \<and> length (Items invoice) = length (elems (items r))
         \<and> (\<forall>i. i < length (elems (items r)) \<longrightarrow>
               Name (Items invoice ! i) = name (elems (items r) ! i)
               \<and> Quantity (Items invoice ! i) = quantity (elems (items r) ! i))))
   \<and> (decodeSlice (decodeStruct decodeItemField) zeroRawItem nilSlice (JArray vs) sv = Inr (sl, sv') \<longrightarrow>
        length (elems sl) = length vs
        \<and> (\<forall>i. i < length vs \<longrightarrow>
              (\<exists>sv1 sv2. decodeStruct decodeItemField zeroRawItem (vs ! i) sv1
                            = Inr (elems sl ! i, sv2))))
   \<and> ((\<forall>(k, v) \<in> set ms. findField itemFields k \<noteq> Some ''quantity'')
        \<and> decodeStruct decodeItemField zeroRawItem (JObject ms) sv = Inr (item, sv'') \<longrightarrow>
        quantity item = 0)
   \<and> (findField itemFields k = Some ''quantity'' \<and> ParseInt n 64 = Inr q \<longrightarrow>
        decodeItemField cur k (JNumber n) sv = Inr (cur\<lparr>quantity := q\<rparr>, sv))"
proof (intro conjI impI)
  assume u: "Unmarshal (cleanResponse response) = Inr r"
  show "\<exists>invoice.
         parseResponse now response ocrText = Inr invoice
         \<and> length (Items invoice) = length (elems (items r))
         \<and> (\<forall>i. i < length (elems (items r)) \<longrightarrow>
               Name (Items invoice ! i) = name (elems (items r) ! i)
               \<and> Quantity (Items invoice ! i) = quantity (elems (items r) ! i))"
    unfolding parseResponse_ok [OF u] by (simp add: buildItem_def)
next
  assume d: "decodeSlice (decodeStruct decodeItemField) zeroRawItem nilSlice (JArray vs) sv = Inr (sl, sv')"
  then obtain xs where
    e: "decodeElems (decodeStruct decodeItemField) zeroRawItem [] vs sv = Inr (xs, sv')"
    and sl: "elems sl = xs"
    by (auto simp: decodeSlice_def nilSlice_def dest: decodeElems_length split: sum.splits if_splits)
  from decodeElems_length [OF e] sl show "length (elems sl) = length vs" by simp
  from decodeElems_nth [OF e] sl
  show "\<forall>i. i < length vs \<longrightarrow>
              (\<exists>sv1 sv2. decodeStruct decodeItemField zeroRawItem (vs ! i) sv1
                            = Inr (elems sl ! i, sv2))"
    by simp
next
  assume "(\<forall>(k, v) \<in> set ms. findField itemFields k \<noteq> Some ''quantity'')
        \<and> decodeStruct decodeItemField zeroRawItem (JObject ms) sv = Inr (item, sv'')"
  then have "quantity item = quantity zeroRawItem"
    using decodeMembers_quantity [of ms zeroRawItem sv item sv'']
    by (simp add: decodeStruct_def)
  then show "quantity item = 0" by (simp add: zeroRawItem_def)
next
  assume "findField itemFields k = Some ''quantity'' \<and> ParseInt n 64 = Inr q"
  then show "decodeItemField cur k (JNumber n) sv = Inr (cur\<lparr>quantity := q\<rparr>, sv)"
    by (simp add: decodeItemField_def)
qed

theorem items_keep_order_and_quantity_witness:
  "\<exists>invoice. parseResponse zeroTime itemsAnswer [] = Inr invoice
     \<and> map Name (Items invoice) = [''A'', ''B'']
     \<and> map Quantity (Items invoice) = [0, - 3]"
proof -
  have u: "Unmarshal (cleanResponse itemsAnswer) = Inr itemsRaw"
    by (simp add: items_clean items_unmarshal)
  from items_keep_order_and_quantity [of itemsAnswer itemsRaw zeroTime "[]"] u
  obtain invoice where i: "parseResponse zeroTime itemsAnswer [] = Inr invoice"
    and l: "length (Items invoice) = length (elems (items itemsRaw))"
    and n: "\<forall>i. i < length (elems (items itemsRaw)) \<longrightarrow>
               Name (Items invoice ! i) = name (elems (items itemsRaw) ! i)
               \<and> Quantity (Items invoice ! i) = quantity (elems (items itemsRaw) ! i)"
    by blast
  from l obtain a b where ab: "Items invoice = [a, b]"
    by (cases "Items invoice"; cases "tl (Items invoice)") (auto simp: itemsRaw_def)
  from n [rule_format, of 0] n [rule_format, of 1] ab
  have "Name a = ''A''" "Quantity a = 0" "Name b = ''B''" "Quantity b = - 3"
    by (simp_all add: itemsRaw_def)
  with i ab show ?thesis by simp
qed

text \<open>
  The claim as first stated fails: an item without a quantity gets 0, not 1, and a
  negative quantity is kept.
\<close>

theorem quantity_default_counterexample:
  "parseResponse zeroTime itemsAnswer [] =
     Inr \<lparr>Vendor = [], Date = zeroTime, Total = zeroDecimal, Tax = zeroDecimal,
          Items = [\<lparr>Name = ''A'', Amount = zeroDecimal, IsTaxed = False, Quantity = 0\<rparr>,
                   \<lparr>Name = ''B'', Amount = zeroDecimal, IsTaxed = False, Quantity = - 3\<rparr>],
          Categories = [], RawText = [], Confidence = FloatLit 85 (- 2),
          ProcessedAt = zeroTime\<rparr>"
  unfolding parseResponse_def items_clean Let_def items_unmarshal
  by (simp add: itemsRaw_def buildItem_def nilSlice_def decimal_eval)

end
